theory Spec2Isabelle
  imports Main "HOL-Library.Multiset" "HOL-Library.List_Lexorder" "HOL-Library.Char_ord"
begin

section \<open>The World Bank figure builder (scripts/get\_data.py)\<close>

text \<open>
  A shallow embedding of \<^verbatim>\<open>return_figures\<close>, the only function of the repository.
  The function pulls one JSON document per indicator from the World Bank API, flattens
  the records in place, and assembles four plotly figures from the first, second and
  fourth record sets.

  Conventions of the model:
  \<^item> Python strings are \<open>string\<close>; \<^verbatim>\<open>str.lower\<close> is modelled on ASCII letters, which is
    what ISO-3 codes consist of.
  \<^item> An \<^verbatim>\<open>OrderedDict\<close> is an association list in insertion order; the function reads its
    values only.
  \<^item> Every \<^verbatim>\<open>raise\<close> of the interpreter that the function can run into is a value of
    \<open>exn\<close>; the function returns \<open>exn + figures\<close> together with its final frame.
  \<^item> The HTTP collaborator (\<^verbatim>\<open>requests.get(url)\<close> followed by \<^verbatim>\<open>resp.json()[1]\<close>) is a
    parameter. When \<^verbatim>\<open>resp.json()[1]\<close> has a value, that value is taken to be a list of
    dicts with the keys \<^verbatim>\<open>indicator\<close>, \<^verbatim>\<open>country\<close>, \<^verbatim>\<open>date\<close> and \<^verbatim>\<open>value\<close>, the
    date a string.
  \<^item> The function is modelled twice. In \<open>return_figures\<close> the collaborator is a function
    from the URL to either a failure (anything the \<^verbatim>\<open>try\<close> block raises) or the list of
    record dicts, as values: this is one call on freshly parsed responses. In
    \<open>return_figures_store\<close> the dicts are objects in a store, the collaborator hands out
    references and may allocate, and lines 77--78 write into the objects: this is what
    expresses the state that one call leaves behind for the next. For a collaborator
    that parses every response afresh the two agree (lemma
    \<open>return_figures_store_parsing\<close>).
  \<^item> The sorting kernel behind \<^verbatim>\<open>DataFrame.sort_values("date")\<close> is a parameter as well:
    pandas' default kind is quicksort, which fixes no order among rows of the same date.
    What the kernel guarantees is the predicate \<open>sorts_by_date\<close>.
  \<^item> The numeric \<^verbatim>\<open>value\<close> of a record is only carried through, so its type is a
    parameter \<open>'v\<close>, standing for the value as the data frame holds it (pandas stores a
    JSON null as NaN).
\<close>

subsection \<open>Module constants\<close>

definition country_default :: "(string \<times> string) list" where
  "country_default =
     [(''Canada'', ''CAN''), (''United States'', ''USA''), (''Brazil'', ''BRA''),
      (''France'', ''FRA''), (''India'', ''IND''), (''Italy'', ''ITA''),
      (''Germany'', ''DEU''), (''United Kingdom'', ''GBR''), (''China'', ''CHN''),
      (''Japan'', ''JPN'')]"

definition indicators_default :: "string list" where
  "indicators_default =
     [''EG.USE.ELEC.KH.PC'', ''EG.FEC.RNEW.ZS'', ''EG.USE.PCAP.KG.OE'', ''EN.ATM.GHGT.KT.CE'']"

subsection \<open>Data\<close>

text \<open>
  A JSON cell of a record: the API delivers \<^verbatim>\<open>indicator\<close> and \<^verbatim>\<open>country\<close> as objects
  \<^verbatim>\<open>{"id": ..., "value": ...}\<close> (\<open>Dict id value\<close>); after flattening the same key holds the
  display string (\<open>Str\<close>).
\<close>

datatype cell = Dict string string | Str string

text \<open>One dict of the records array; \<open>val\<close> is the key \<^verbatim>\<open>"value"\<close>.\<close>

record 'v observation =
  indicator :: cell
  country :: cell
  date :: string
  val :: 'v

datatype exn = UnboundLocalError | TypeError | IndexError | KeyError

datatype failure = RequestFailure | ParseFailure

text \<open>
  The frame of one call: the two argument objects, the locals of the retrieval loop
  (\<open>data = None\<close> while the name is unbound) and the lines printed so far.
\<close>

record 'v frame =
  countries :: "(string \<times> string) list"
  indicators :: "string list"
  data :: "'v observation list option"
  data_frames :: "'v observation list list"
  urls :: "string list"
  stdout :: "string list"

text \<open>
  \<^verbatim>\<open>go.Scatter(x=, y=, mode=, name=)\<close> and \<^verbatim>\<open>go.Bar(x=, y=, name=)\<close>. The name is the
  country cell of the data frame.
\<close>

datatype 'v trace =
    Scatter (x_val: "string list") (y_val: "'v list") (mode: string) (name: cell)
  | Bar (x_val: "string list") (y_val: "'v list") (name: cell)

text \<open>The \<^verbatim>\<open>type\<close> property plotly gives the two trace classes.\<close>

fun trace_type :: "'v trace \<Rightarrow> string" where
  "trace_type (Scatter _ _ _ _) = ''scatter''"
| "trace_type (Bar _ _ _) = ''bar''"

text \<open>\<^verbatim>\<open>dict(title=...)\<close> of an axis, and the layout dict; \<open>barmode = None\<close>: no such key.\<close>

datatype axis = Axis string

record layout =
  barmode :: "string option"
  title :: string
  xaxis :: axis
  yaxis :: axis

text \<open>\<^verbatim>\<open>dict(data=..., layout=...)\<close>.\<close>

datatype 'v figure = Figure (fig_data: "'v trace list") (fig_layout: layout)

subsection \<open>Query construction (lines 49--68)\<close>

text \<open>\<^verbatim>\<open>str.lower\<close>, on ASCII: the 26 capital letters map to their small letters.\<close>

definition lower_char :: "char \<Rightarrow> char" where
  "lower_char c =
     (case map_of (zip ''ABCDEFGHIJKLMNOPQRSTUVWXYZ'' ''abcdefghijklmnopqrstuvwxyz'') c of
        Some l \<Rightarrow> l
      | None \<Rightarrow> c)"

definition lower :: "string \<Rightarrow> string" where
  "lower s = map lower_char s"

fun join :: "string \<Rightarrow> string list \<Rightarrow> string" where
  "join sep [] = []"
| "join sep [s] = s"
| "join sep (s # t # ts) = s @ sep @ join sep (t # ts)"

definition country_filter :: "(string \<times> string) list \<Rightarrow> string" where
  "country_filter cs = join '';'' (map lower (map snd cs))"

definition make_url :: "string \<Rightarrow> string \<Rightarrow> string" where
  "make_url cf code =
     ''http://api.worldbank.org/v2/country/'' @ cf @ ''/indicator/'' @ code
       @ ''?date=1990:2015&per_page=1000&format=json''"

subsection \<open>Retrieval and flattening (lines 60--80)\<close>

text \<open>
  Lines 76--78. Subscripting a string with \<^verbatim>\<open>"value"\<close> raises \<^verbatim>\<open>TypeError\<close>; that is
  what happens to a record that is already flat.
\<close>

fun flatten :: "'v observation list \<Rightarrow> exn + 'v observation list" where
  "flatten [] = Inr []"
| "flatten (v # vs) =
     (case indicator v of
        Str _ \<Rightarrow> Inl TypeError
      | Dict _ i \<Rightarrow>
          (case country v of
             Str _ \<Rightarrow> Inl TypeError
           | Dict _ c \<Rightarrow>
               (case flatten vs of
                  Inl e \<Rightarrow> Inl e
                | Inr vs' \<Rightarrow> Inr (v\<lparr>indicator := Str i, country := Str c\<rparr> # vs'))))"

text \<open>
  One round of the loop over \<^verbatim>\<open>indicators\<close> (lines 61--80). A failed request prints
  and leaves \<open>data\<close> as it was: unbound in the first round, the flattened records of
  the last successful round later. The round returns the exception that ended it, if
  any, and the frame at that point.
\<close>

definition loop_body ::
  "(string \<Rightarrow> failure + 'v observation list) \<Rightarrow> string \<Rightarrow> string \<Rightarrow> 'v frame
     \<Rightarrow> exn option \<times> 'v frame" where
  "loop_body requests_get cf code st =
     (let url = make_url cf code;
          st1 = st\<lparr>urls := urls st @ [url]\<rparr>;
          st2 = (case requests_get url of
                   Inr records \<Rightarrow> st1\<lparr>data := Some records\<rparr>
                 | Inl _ \<Rightarrow> st1\<lparr>stdout := stdout st1 @ [''could not load data for '' @ code]\<rparr>)
      in case data st2 of
           None \<Rightarrow> (Some UnboundLocalError, st2)
         | Some d \<Rightarrow>
             (case flatten d of
                Inl e \<Rightarrow> (Some e, st2)
              | Inr d' \<Rightarrow> (None, st2\<lparr>data := Some d', data_frames := data_frames st2 @ [d']\<rparr>)))"

fun pull ::
  "(string \<Rightarrow> failure + 'v observation list) \<Rightarrow> string \<Rightarrow> string list \<Rightarrow> 'v frame
     \<Rightarrow> exn option \<times> 'v frame" where
  "pull requests_get cf [] st = (None, st)"
| "pull requests_get cf (code # rest) st =
     (case loop_body requests_get cf code st of
        (Some e, st') \<Rightarrow> (Some e, st')
      | (None, st') \<Rightarrow> pull requests_get cf rest st')"

subsection \<open>Chart assembly (lines 82--184)\<close>

definition exn_bind :: "exn + 'a \<Rightarrow> ('a \<Rightarrow> exn + 'b) \<Rightarrow> exn + 'b" where
  "exn_bind m f = (case m of Inl e \<Rightarrow> Inl e | Inr a \<Rightarrow> f a)"

text \<open>\<^verbatim>\<open>data_frames[i]\<close> for a literal index \<open>i \<ge> 0\<close>.\<close>

definition getitem :: "'a list \<Rightarrow> nat \<Rightarrow> exn + 'a" where
  "getitem xs i = (if i < length xs then Inr (xs ! i) else Inl IndexError)"

definition years_one :: "string list" where
  "years_one = [''1990'', ''1995'', ''2000'', ''2005'', ''2010'', ''2014'']"

definition years_rest :: "string list" where
  "years_rest = [''1990'', ''1995'', ''2000'', ''2005'', ''2010'', ''2015'']"

text \<open>
  \<^verbatim>\<open>df = pd.DataFrame(d); df = df[df["date"].isin(years)]; df.sort_values("date", inplace=True)\<close>.
  A data frame built from an empty list has no columns, so \<^verbatim>\<open>df["date"]\<close> raises
  \<^verbatim>\<open>KeyError\<close>; a frame that is empty after the filter keeps its columns.
\<close>

definition select_years ::
  "('v observation list \<Rightarrow> 'v observation list) \<Rightarrow> 'v observation list \<Rightarrow> string list
     \<Rightarrow> exn + 'v observation list" where
  "select_years sort_values d years =
     (if d = [] then Inl KeyError
      else Inr (sort_values (filter (\<lambda>r. date r \<in> set years) d)))"

text \<open>\<^verbatim>\<open>Series.unique()\<close>: the distinct values in order of first appearance.\<close>

fun unique :: "'a list \<Rightarrow> 'a list" where
  "unique [] = []"
| "unique (a # bs) = a # unique (filter (\<lambda>b. b \<noteq> a) bs)"

definition scatter_traces :: "'v observation list \<Rightarrow> cell list \<Rightarrow> 'v trace list" where
  "scatter_traces df countrylist =
     map (\<lambda>c. Scatter (map date (filter (\<lambda>r. country r = c) df))
                       (map val (filter (\<lambda>r. country r = c) df))
                       ''lines+markers'' c) countrylist"

definition bar_traces :: "'v observation list \<Rightarrow> cell list \<Rightarrow> 'v trace list" where
  "bar_traces df countrylist =
     map (\<lambda>c. Bar (map date (filter (\<lambda>r. country r = c) df))
                   (map val (filter (\<lambda>r. country r = c) df)) c) countrylist"

definition layout_one :: layout where
  "layout_one =
     \<lparr>barmode = None,
      title = ''Electric power consumption 1990 to 2015<br>(kWh per capita)'',
      xaxis = Axis ''Year'', yaxis = Axis ''KWh (Thousand)''\<rparr>"

definition layout_two :: layout where
  "layout_two =
     \<lparr>barmode = Some ''stack'',
      title = ''% Renewable energy consumption 1990 to 2015'',
      xaxis = Axis ''Year'', yaxis = Axis ''% of total final energy''\<rparr>"

definition layout_three :: layout where
  "layout_three =
     \<lparr>barmode = None,
      title = ''Energy use <br> (kg of oil equivalent per capita)'',
      xaxis = Axis ''Year'', yaxis = Axis ''Energy (Kg of oil)''\<rparr>"

definition layout_four :: layout where
  "layout_four =
     \<lparr>barmode = Some ''stack'',
      title = ''Total greenhouse gas emissions 1990-2015<br>(kt of CO2 equivalent)'',
      xaxis = Axis ''Year'', yaxis = Axis ''CO2 equivalents (kilo tonnes)''\<rparr>"

text \<open>
  Lines 84--184, in the order the statements run: each subscript of \<open>data_frames\<close> and
  each column access can end the call.
\<close>

definition charts ::
  "('v observation list \<Rightarrow> 'v observation list) \<Rightarrow> 'v observation list list
     \<Rightarrow> exn + 'v figure list" where
  "charts sort_values dfs =
     exn_bind (getitem dfs 0) (\<lambda>d0.
     exn_bind (select_years sort_values d0 years_one) (\<lambda>df_one.
       let countrylist = unique (map country df_one);
           graph_one = scatter_traces df_one countrylist
       in
     exn_bind (getitem dfs 1) (\<lambda>d1.
     exn_bind (select_years sort_values d1 years_rest) (\<lambda>df_two.
       let graph_two = bar_traces df_two countrylist in
     exn_bind (getitem dfs 1) (\<lambda>d2.
     exn_bind (select_years sort_values d2 years_rest) (\<lambda>df_three.
       let graph_three = scatter_traces df_three countrylist in
     exn_bind (getitem dfs 3) (\<lambda>d3.
     exn_bind (select_years sort_values d3 years_rest) (\<lambda>df_four.
       let graph_four = bar_traces df_four countrylist in
       Inr [Figure graph_one layout_one, Figure graph_two layout_two,
            Figure graph_three layout_three, Figure graph_four layout_four]))))))))"

subsection \<open>The function\<close>

definition return_figures ::
  "('v observation list \<Rightarrow> 'v observation list) \<Rightarrow> (string \<Rightarrow> failure + 'v observation list)
     \<Rightarrow> (string \<times> string) list \<Rightarrow> string list \<Rightarrow> (exn + 'v figure list) \<times> 'v frame" where
  "return_figures sort_values requests_get countries_arg indicators_arg =
     (let st0 = \<lparr>countries = countries_arg, indicators = indicators_arg, data = None,
                 data_frames = [], urls = [], stdout = []\<rparr>;
          cf = country_filter (countries st0)
      in case pull requests_get cf (indicators st0) st0 of
           (Some e, st) \<Rightarrow> (Inl e, st)
         | (None, st) \<Rightarrow> (charts sort_values (data_frames st), st))"

text \<open>What \<^verbatim>\<open>sort_values("date")\<close> guarantees: the same rows, by ascending date.\<close>

definition sorts_by_date :: "('v observation list \<Rightarrow> 'v observation list) \<Rightarrow> bool" where
  "sorts_by_date sort_values \<longleftrightarrow>
     (\<forall>rows. mset (sort_values rows) = mset rows \<and> sorted (map date (sort_values rows)))"

subsection \<open>The function over a store of objects\<close>

text \<open>
  The store of one call: the dict objects by address (the index into \<open>heap\<close>), the locals
  \<^verbatim>\<open>data\<close> and \<^verbatim>\<open>data_frames\<close> as lists of references, \<^verbatim>\<open>urls\<close> and the lines printed.
  A list of references is a value: the function writes into dicts only, never into the
  lists the collaborator hands out.
\<close>

record 'v store =
  heap :: "'v observation list"
  data_refs :: "nat list option"
  frames_refs :: "nat list list"
  store_urls :: "string list"
  store_stdout :: "string list"

text \<open>
  Lines 76--78 on the objects: line 77 overwrites \<^verbatim>\<open>indicator\<close> before line 78 looks at
  \<^verbatim>\<open>country\<close>, and a raise leaves the writes made so far. A reference handed out by a
  collaborator is below the length of the heap.
\<close>

fun flatten_in_place :: "nat list \<Rightarrow> 'v observation list \<Rightarrow> exn option \<times> 'v observation list" where
  "flatten_in_place [] h = (None, h)"
| "flatten_in_place (a # rest) h =
     (case indicator (h ! a) of
        Str _ \<Rightarrow> (Some TypeError, h)
      | Dict _ i \<Rightarrow>
          (let h1 = h[a := (h ! a)\<lparr>indicator := Str i\<rparr>] in
           case country (h1 ! a) of
             Str _ \<Rightarrow> (Some TypeError, h1)
           | Dict _ c \<Rightarrow> flatten_in_place rest (h1[a := (h1 ! a)\<lparr>country := Str c\<rparr>])))"

text \<open>
  One round of the loop, the loop, and the call. A collaborator gets the URL and the heap
  and returns its answer, a failure or the references of the record dicts, and the heap
  it leaves. \<^verbatim>\<open>pd.DataFrame(data_frames[i])\<close> reads the objects as they are after the loop.
\<close>

definition loop_body_store ::
  "(string \<Rightarrow> 'v observation list \<Rightarrow> (failure + nat list) \<times> 'v observation list)
     \<Rightarrow> string \<Rightarrow> string \<Rightarrow> 'v store \<Rightarrow> exn option \<times> 'v store" where
  "loop_body_store requests_get cf code w =
     (let url = make_url cf code;
          w1 = w\<lparr>store_urls := store_urls w @ [url]\<rparr>;
          w2 = (case requests_get url (heap w1) of
                  (Inr refs, h) \<Rightarrow> w1\<lparr>heap := h, data_refs := Some refs\<rparr>
                | (Inl _, h) \<Rightarrow>
                    w1\<lparr>heap := h,
                       store_stdout := store_stdout w1 @ [''could not load data for '' @ code]\<rparr>)
      in case data_refs w2 of
           None \<Rightarrow> (Some UnboundLocalError, w2)
         | Some refs \<Rightarrow>
             (case flatten_in_place refs (heap w2) of
                (Some e, h) \<Rightarrow> (Some e, w2\<lparr>heap := h\<rparr>)
              | (None, h) \<Rightarrow> (None, w2\<lparr>heap := h, frames_refs := frames_refs w2 @ [refs]\<rparr>)))"

fun pull_store ::
  "(string \<Rightarrow> 'v observation list \<Rightarrow> (failure + nat list) \<times> 'v observation list)
     \<Rightarrow> string \<Rightarrow> string list \<Rightarrow> 'v store \<Rightarrow> exn option \<times> 'v store" where
  "pull_store requests_get cf [] w = (None, w)"
| "pull_store requests_get cf (code # rest) w =
     (case loop_body_store requests_get cf code w of
        (Some e, w') \<Rightarrow> (Some e, w')
      | (None, w') \<Rightarrow> pull_store requests_get cf rest w')"

definition return_figures_store ::
  "('v observation list \<Rightarrow> 'v observation list)
     \<Rightarrow> (string \<Rightarrow> 'v observation list \<Rightarrow> (failure + nat list) \<times> 'v observation list)
     \<Rightarrow> (string \<times> string) list \<Rightarrow> string list \<Rightarrow> 'v observation list
     \<Rightarrow> (exn + 'v figure list) \<times> 'v observation list" where
  "return_figures_store sort_values requests_get countries_arg indicators_arg h =
     (let w0 = \<lparr>heap = h, data_refs = None, frames_refs = [], store_urls = [],
                 store_stdout = []\<rparr>;
          cf = country_filter countries_arg
      in case pull_store requests_get cf indicators_arg w0 of
           (Some e, w) \<Rightarrow> (Inl e, heap w)
         | (None, w) \<Rightarrow>
             (charts sort_values (map (map (\<lambda>a. heap w ! a)) (frames_refs w)), heap w))"

text \<open>
  Two collaborators. \<open>parsing body\<close> parses the body of every response afresh, as
  \<^verbatim>\<open>resp.json()\<close> does: the records are new objects. \<open>fixtures refs_of\<close> hands out the
  same objects at every request, as a fake with fixed fixture objects does.
\<close>

definition parsing ::
  "(string \<Rightarrow> failure + 'v observation list)
     \<Rightarrow> string \<Rightarrow> 'v observation list \<Rightarrow> (failure + nat list) \<times> 'v observation list" where
  "parsing body url h =
     (case body url of
        Inl f \<Rightarrow> (Inl f, h)
      | Inr records \<Rightarrow> (Inr [length h ..< length h + length records], h @ records))"

definition fixtures ::
  "(string \<Rightarrow> failure + nat list)
     \<Rightarrow> string \<Rightarrow> 'v observation list \<Rightarrow> (failure + nat list) \<times> 'v observation list" where
  "fixtures refs_of url h = (refs_of url, h)"

section \<open>Auxiliary notions\<close>

text \<open>The display string of a cell, and a record as the API delivers it.\<close>

fun display :: "cell \<Rightarrow> string" where
  "display (Dict _ s) = s"
| "display (Str s) = s"

fun is_dict :: "cell \<Rightarrow> bool" where
  "is_dict (Dict _ _) = True"
| "is_dict (Str _) = False"

definition nested :: "'v observation \<Rightarrow> bool" where
  "nested v \<longleftrightarrow> is_dict (indicator v) \<and> is_dict (country v)"

text \<open>What lines 77--78 make of a nested record.\<close>

definition flat_record :: "'v observation \<Rightarrow> 'v observation" where
  "flat_record v =
     v\<lparr>indicator := Str (display (indicator v)), country := Str (display (country v))\<rparr>"

text \<open>
  The flattened records of the response for one indicator code; empty when the request
  fails. In a call whose loop completes this is the entry of \<open>data_frames\<close> for that
  code (lemma \<open>pull_frames\<close>).
\<close>

definition rows_of ::
  "(string \<Rightarrow> failure + 'v observation list) \<Rightarrow> string \<Rightarrow> string \<Rightarrow> 'v observation list" where
  "rows_of requests_get cf code =
     (case requests_get (make_url cf code) of
        Inr records \<Rightarrow> map flat_record records
      | Inl _ \<Rightarrow> [])"

text \<open>The value of \<open>data\<close> between two rounds: unbound, or records that are flat already.\<close>

definition stale_ok :: "'v observation list option \<Rightarrow> bool" where
  "stale_ok dat \<longleftrightarrow> (case dat of None \<Rightarrow> True | Some d \<Rightarrow> list_all (\<lambda>v. \<not> nested v) d)"

text \<open>
  The values the locals \<^verbatim>\<open>df_one\<close>, \<^verbatim>\<open>df_two\<close> (which is also \<^verbatim>\<open>df_three\<close>),
  \<^verbatim>\<open>df_four\<close> and \<^verbatim>\<open>countrylist\<close> take in a call that returns, and the list it
  returns then (lemma \<open>return_figures_Inr\<close>), as functions of the arguments and the
  collaborators.
\<close>

definition df_one ::
  "('v observation list \<Rightarrow> 'v observation list) \<Rightarrow> (string \<Rightarrow> failure + 'v observation list)
     \<Rightarrow> (string \<times> string) list \<Rightarrow> string list \<Rightarrow> 'v observation list" where
  "df_one sort_values requests_get cs inds =
     sort_values (filter (\<lambda>r. date r \<in> set years_one)
       (rows_of requests_get (country_filter cs) (inds ! 0)))"

definition df_two ::
  "('v observation list \<Rightarrow> 'v observation list) \<Rightarrow> (string \<Rightarrow> failure + 'v observation list)
     \<Rightarrow> (string \<times> string) list \<Rightarrow> string list \<Rightarrow> 'v observation list" where
  "df_two sort_values requests_get cs inds =
     sort_values (filter (\<lambda>r. date r \<in> set years_rest)
       (rows_of requests_get (country_filter cs) (inds ! 1)))"

definition df_four ::
  "('v observation list \<Rightarrow> 'v observation list) \<Rightarrow> (string \<Rightarrow> failure + 'v observation list)
     \<Rightarrow> (string \<times> string) list \<Rightarrow> string list \<Rightarrow> 'v observation list" where
  "df_four sort_values requests_get cs inds =
     sort_values (filter (\<lambda>r. date r \<in> set years_rest)
       (rows_of requests_get (country_filter cs) (inds ! 3)))"

definition countrylist ::
  "('v observation list \<Rightarrow> 'v observation list) \<Rightarrow> (string \<Rightarrow> failure + 'v observation list)
     \<Rightarrow> (string \<times> string) list \<Rightarrow> string list \<Rightarrow> cell list" where
  "countrylist sort_values requests_get cs inds =
     unique (map country (df_one sort_values requests_get cs inds))"

definition four_figures ::
  "('v observation list \<Rightarrow> 'v observation list) \<Rightarrow> (string \<Rightarrow> failure + 'v observation list)
     \<Rightarrow> (string \<times> string) list \<Rightarrow> string list \<Rightarrow> 'v figure list" where
  "four_figures sort_values requests_get cs inds =
     [Figure (scatter_traces (df_one sort_values requests_get cs inds)
                (countrylist sort_values requests_get cs inds)) layout_one,
      Figure (bar_traces (df_two sort_values requests_get cs inds)
                (countrylist sort_values requests_get cs inds)) layout_two,
      Figure (scatter_traces (df_two sort_values requests_get cs inds)
                (countrylist sort_values requests_get cs inds)) layout_three,
      Figure (bar_traces (df_four sort_values requests_get cs inds)
                (countrylist sort_values requests_get cs inds)) layout_four]"

text \<open>
  The points a chart has to show for one country: date and value of the records of that
  country whose date is one of the given years, as a multiset.
\<close>

definition kept_points ::
  "string set \<Rightarrow> 'v observation list \<Rightarrow> cell \<Rightarrow> (string \<times> 'v) multiset" where
  "kept_points years rows c =
     image_mset (\<lambda>r. (date r, val r))
       (filter_mset (\<lambda>r. date r \<in> years \<and> country r = c) (mset rows))"

text \<open>
  A frame of the first model and a store of the second hold the same values: the locals
  of the frame are the references of the store read in its heap, the references are in
  range, and those of \<open>data\<close> are distinct.
\<close>

definition agrees :: "'v frame \<Rightarrow> 'v store \<Rightarrow> bool" where
  "agrees st w \<longleftrightarrow>
     urls st = store_urls w \<and> stdout st = store_stdout w \<and>
     data st = map_option (map (\<lambda>a. heap w ! a)) (data_refs w) \<and>
     data_frames st = map (map (\<lambda>a. heap w ! a)) (frames_refs w) \<and>
     (case data_refs w of
        None \<Rightarrow> True
      | Some refs \<Rightarrow> distinct refs \<and> list_all (\<lambda>a. a < length (heap w)) refs) \<and>
     list_all (list_all (\<lambda>a. a < length (heap w))) (frames_refs w)"

subsection \<open>A concrete run\<close>

text \<open>
  Two countries, the default indicators, and a collaborator that serves a few records per
  indicator in the order of the API (by country, latest year first). Brazil has no record
  for the second indicator; the first indicator has records of 2014 and 1992.
\<close>

definition wb_record :: "string \<Rightarrow> string \<Rightarrow> string \<Rightarrow> string \<Rightarrow> 'v \<Rightarrow> 'v observation" where
  "wb_record code iso2 c d v =
     \<lparr>indicator = Dict code ''indicator name'', country = Dict iso2 c, date = d, val = v\<rparr>"

definition demo_countries :: "(string \<times> string) list" where
  "demo_countries = [(''Canada'', ''CAN''), (''Brazil'', ''BRA'')]"

definition demo_get :: "string \<Rightarrow> failure + int observation list" where
  "demo_get url =
     (if url = make_url ''can;bra'' ''EG.USE.ELEC.KH.PC'' then
        Inr [wb_record ''EG.USE.ELEC.KH.PC'' ''BR'' ''Brazil'' ''2014'' 2620,
             wb_record ''EG.USE.ELEC.KH.PC'' ''BR'' ''Brazil'' ''1992'' 1500,
             wb_record ''EG.USE.ELEC.KH.PC'' ''BR'' ''Brazil'' ''1990'' 1460,
             wb_record ''EG.USE.ELEC.KH.PC'' ''CA'' ''Canada'' ''2014'' 15540,
             wb_record ''EG.USE.ELEC.KH.PC'' ''CA'' ''Canada'' ''1990'' 16170]
      else if url = make_url ''can;bra'' ''EG.FEC.RNEW.ZS'' then
        Inr [wb_record ''EG.FEC.RNEW.ZS'' ''CA'' ''Canada'' ''2015'' 22,
             wb_record ''EG.FEC.RNEW.ZS'' ''CA'' ''Canada'' ''2014'' 23,
             wb_record ''EG.FEC.RNEW.ZS'' ''CA'' ''Canada'' ''1990'' 21]
      else if url = make_url ''can;bra'' ''EG.USE.PCAP.KG.OE'' then
        Inr [wb_record ''EG.USE.PCAP.KG.OE'' ''BR'' ''Brazil'' ''2000'' 1070]
      else if url = make_url ''can;bra'' ''EN.ATM.GHGT.KT.CE'' then
        Inr [wb_record ''EN.ATM.GHGT.KT.CE'' ''CA'' ''Canada'' ''2015'' 720000,
             wb_record ''EN.ATM.GHGT.KT.CE'' ''BR'' ''Brazil'' ''2015'' 1000000,
             wb_record ''EN.ATM.GHGT.KT.CE'' ''BR'' ''Brazil'' ''1990'' 600000]
      else Inl RequestFailure)"

definition demo_figures :: "int figure list" where
  "demo_figures =
     [Figure [Scatter [''1990'', ''2014''] [1460, 2620] ''lines+markers'' (Str ''Brazil''),
              Scatter [''1990'', ''2014''] [16170, 15540] ''lines+markers'' (Str ''Canada'')]
        layout_one,
      Figure [Bar [] [] (Str ''Brazil''),
              Bar [''1990'', ''2015''] [21, 22] (Str ''Canada'')]
        layout_two,
      Figure [Scatter [] [] ''lines+markers'' (Str ''Brazil''),
              Scatter [''1990'', ''2015''] [21, 22] ''lines+markers'' (Str ''Canada'')]
        layout_three,
      Figure [Bar [''1990'', ''2015''] [600000, 1000000] (Str ''Brazil''),
              Bar [''2015''] [720000] (Str ''Canada'')]
        layout_four]"


text \<open>The same collaborator, but the response for the first indicator has no records.\<close>

definition empty_get :: "string \<Rightarrow> failure + int observation list" where
  "empty_get url =
     (if url = make_url ''can;bra'' ''EG.USE.ELEC.KH.PC'' then Inr [] else demo_get url)"

text \<open>The same collaborator, but the request for the second indicator fails.\<close>

definition flaky_get :: "string \<Rightarrow> failure + int observation list" where
  "flaky_get url =
     (if url = make_url ''can;bra'' ''EG.FEC.RNEW.ZS'' then Inl RequestFailure else demo_get url)"

text \<open>
  The records of \<open>demo_get\<close> as twelve fixture objects, and the references a fake hands
  out for each URL.
\<close>

definition demo_heap :: "int observation list" where
  "demo_heap =
     concat (map (\<lambda>code. case demo_get (make_url ''can;bra'' code) of
                            Inr records \<Rightarrow> records
                          | Inl _ \<Rightarrow> []) indicators_default)"

definition demo_refs :: "string \<Rightarrow> failure + nat list" where
  "demo_refs url =
     (if url = make_url ''can;bra'' ''EG.USE.ELEC.KH.PC'' then Inr [0, 1, 2, 3, 4]
      else if url = make_url ''can;bra'' ''EG.FEC.RNEW.ZS'' then Inr [5, 6, 7]
      else if url = make_url ''can;bra'' ''EG.USE.PCAP.KG.OE'' then Inr [8]
      else if url = make_url ''can;bra'' ''EN.ATM.GHGT.KT.CE'' then Inr [9, 10, 11]
      else Inl RequestFailure)"

section \<open>Flattening and the retrieval loop\<close>

lemma flatten_Inr: "flatten d = Inr d' \<Longrightarrow> list_all nested d \<and> d' = map flat_record d"
proof (induction d arbitrary: d')
  case Nil
  then show ?case by simp
next
  case (Cons v vs)
  then show ?case
    by (auto simp: nested_def flat_record_def split: cell.splits sum.splits)
qed

lemma flatten_nested: "list_all nested d \<Longrightarrow> flatten d = Inr (map flat_record d)"
proof (induction d)
  case Nil
  then show ?case by simp
next
  case (Cons v vs)
  then show ?case
    by (cases "indicator v"; cases "country v") (auto simp: nested_def flat_record_def)
qed

lemma flatten_Inl: "flatten d = Inl e \<Longrightarrow> e = TypeError"
  by (induction d) (auto split: cell.splits sum.splits)

text \<open>Records that went through the loop once cannot go through it again.\<close>

lemma flatten_stale:
  "list_all (\<lambda>v. \<not> nested v) d \<Longrightarrow> flatten d = Inr d' \<Longrightarrow> d = [] \<and> d' = []"
  by (cases d) (auto simp: nested_def split: cell.splits sum.splits)

lemma flatten_gives_stale: "flatten d = Inr d' \<Longrightarrow> list_all (\<lambda>v. \<not> nested v) d'"
  by (induction d arbitrary: d') (auto simp: nested_def split: cell.splits sum.splits)

text \<open>What one round does to the frame.\<close>

lemma loop_body_urls:
  "urls (snd (loop_body requests_get cf code st)) = urls st @ [make_url cf code]"
  by (cases "requests_get (make_url cf code)"; cases "data st")
     (auto simp: loop_body_def Let_def split: sum.splits)

lemma loop_body_args:
  "countries (snd (loop_body requests_get cf code st)) = countries st \<and>
   indicators (snd (loop_body requests_get cf code st)) = indicators st"
  by (cases "requests_get (make_url cf code)"; cases "data st")
     (auto simp: loop_body_def Let_def split: sum.splits)

lemma loop_body_exn:
  "loop_body requests_get cf code st = (Some e, st') \<Longrightarrow> e = UnboundLocalError \<or> e = TypeError"
  by (cases "requests_get (make_url cf code)"; cases "data st")
     (auto simp: loop_body_def Let_def split: sum.splits dest: flatten_Inl)

text \<open>
  A round that gets through appends the flattened response, or the empty list where the
  request failed: a failed round only gets through with an empty stale list.
\<close>

lemma loop_body_frames:
  assumes "loop_body requests_get cf code st = (None, st')" and "stale_ok (data st)"
  shows "data_frames st' = data_frames st @ [rows_of requests_get cf code] \<and> stale_ok (data st')"
proof (cases "requests_get (make_url cf code)")
  case (Inl f)
  with assms(1) obtain d where d: "data st = Some d"
    by (cases "data st") (auto simp: loop_body_def Let_def)
  with assms(1) Inl obtain d' where d': "flatten d = Inr d'"
    by (cases "flatten d") (auto simp: loop_body_def Let_def)
  from assms(2) d have "list_all (\<lambda>v. \<not> nested v) d" by (simp add: stale_ok_def)
  with d' have "d = []" "d' = []" using flatten_stale by blast+
  with assms(1) Inl d show ?thesis
    by (auto simp: loop_body_def Let_def rows_of_def stale_ok_def)
next
  case (Inr records)
  with assms(1) obtain d' where d': "flatten records = Inr d'"
    by (cases "flatten records") (auto simp: loop_body_def Let_def)
  from flatten_Inr [OF d'] flatten_gives_stale [OF d'] assms(1) Inr d' show ?thesis
    by (auto simp: loop_body_def Let_def rows_of_def stale_ok_def)
qed

lemma loop_body_nested:
  assumes "requests_get (make_url cf code) = Inr records" and "list_all nested records"
  shows "fst (loop_body requests_get cf code st) = None"
  using assms by (simp add: loop_body_def Let_def flatten_nested)

text \<open>
  Records that are flat when they are delivered end the round with \<^verbatim>\<open>TypeError\<close>.
\<close>

lemma loop_body_cached_objects:
  assumes "requests_get (make_url cf code) = Inr (map flat_record records)"
    and "records \<noteq> []"
  shows "fst (loop_body requests_get cf code st) = Some TypeError"
proof -
  from assms(2) obtain v vs where "records = v # vs" by (cases records) auto
  then have "flatten (map flat_record records) = Inl TypeError"
    by (simp add: flat_record_def)
  with assms(1) show ?thesis by (simp add: loop_body_def Let_def)
qed

text \<open>The loop.\<close>

lemma pull_frames:
  "pull requests_get cf codes st = (None, st') \<Longrightarrow> stale_ok (data st) \<Longrightarrow>
     data_frames st' = data_frames st @ map (rows_of requests_get cf) codes"
proof (induction codes arbitrary: st)
  case Nil
  then show ?case by simp
next
  case (Cons code rest)
  obtain e st1 where b: "loop_body requests_get cf code st = (e, st1)"
    by (cases "loop_body requests_get cf code st")
  with Cons.prems(1) have e: "e = None" and p: "pull requests_get cf rest st1 = (None, st')"
    by (cases e; simp)+
  from loop_body_frames [OF b [unfolded e] Cons.prems(2)]
  have "data_frames st1 = data_frames st @ [rows_of requests_get cf code]" "stale_ok (data st1)"
    by simp_all
  with Cons.IH [OF p] show ?case by simp
qed

lemma pull_args:
  "countries (snd (pull requests_get cf codes st)) = countries st \<and>
   indicators (snd (pull requests_get cf codes st)) = indicators st"
proof (induction codes arbitrary: st)
  case Nil
  then show ?case by simp
next
  case (Cons code rest)
  obtain e st1 where b: "loop_body requests_get cf code st = (e, st1)"
    by (cases "loop_body requests_get cf code st")
  with loop_body_args [of requests_get cf code st]
  have "countries st1 = countries st" "indicators st1 = indicators st"
    by simp_all
  with b Cons.IH [of st1] show ?case
    by (cases e) simp_all
qed

lemma pull_exn:
  "pull requests_get cf codes st = (Some e, st') \<Longrightarrow> e = UnboundLocalError \<or> e = TypeError"
proof (induction codes arbitrary: st)
  case Nil
  then show ?case by simp
next
  case (Cons code rest)
  obtain e1 st1 where b: "loop_body requests_get cf code st = (e1, st1)"
    by (cases "loop_body requests_get cf code st")
  show ?case
  proof (cases e1)
    case None
    with b Cons.prems have "pull requests_get cf rest st1 = (Some e, st')" by simp
    then show ?thesis by (rule Cons.IH)
  next
    case (Some e2)
    with b Cons.prems have "e2 = e" by simp
    with b Some show ?thesis using loop_body_exn by blast
  qed
qed

lemma pull_urls_done:
  "pull requests_get cf codes st = (None, st') \<Longrightarrow> urls st' = urls st @ map (make_url cf) codes"
proof (induction codes arbitrary: st)
  case Nil
  then show ?case by simp
next
  case (Cons code rest)
  obtain e st1 where b: "loop_body requests_get cf code st = (e, st1)"
    by (cases "loop_body requests_get cf code st")
  with Cons.prems have e: "e = None" and p: "pull requests_get cf rest st1 = (None, st')"
    by (cases e; simp)+
  from b loop_body_urls [of requests_get cf code st]
  have "urls st1 = urls st @ [make_url cf code]" by simp
  with Cons.IH [OF p] show ?case by simp
qed

lemma pull_urls_prefix:
  "\<exists>n\<le>length codes.
     urls (snd (pull requests_get cf codes st)) = urls st @ map (make_url cf) (take n codes)"
proof (induction codes arbitrary: st)
  case Nil
  then show ?case by simp
next
  case (Cons code rest)
  obtain e st1 where b: "loop_body requests_get cf code st = (e, st1)"
    by (cases "loop_body requests_get cf code st")
  from b loop_body_urls [of requests_get cf code st]
  have u: "urls st1 = urls st @ [make_url cf code]" by simp
  show ?case
  proof (cases e)
    case None
    from Cons.IH [of st1] obtain n where n: "n \<le> length rest"
      "urls (snd (pull requests_get cf rest st1)) = urls st1 @ map (make_url cf) (take n rest)"
      by blast
    with b None u have "urls (snd (pull requests_get cf (code # rest) st)) =
        urls st @ map (make_url cf) (take (Suc n) (code # rest))"
      by simp
    with n(1) show ?thesis
      by (intro exI [of _ "Suc n"]) simp
  next
    case (Some e2)
    with b u have "urls (snd (pull requests_get cf (code # rest) st)) =
        urls st @ map (make_url cf) (take 1 (code # rest))"
      by simp
    then show ?thesis
      by (intro exI [of _ 1]) simp
  qed
qed

lemma pull_all_nested:
  "list_all (\<lambda>code. case requests_get (make_url cf code) of
                       Inr records \<Rightarrow> list_all nested records
                     | Inl _ \<Rightarrow> False) codes
   \<Longrightarrow> fst (pull requests_get cf codes st) = None"
proof (induction codes arbitrary: st)
  case Nil
  then show ?case by simp
next
  case (Cons code rest)
  from Cons.prems obtain records where r: "requests_get (make_url cf code) = Inr records"
    "list_all nested records"
    by (cases "requests_get (make_url cf code)") auto
  obtain e st1 where b: "loop_body requests_get cf code st = (e, st1)"
    by (cases "loop_body requests_get cf code st")
  with loop_body_nested [of requests_get cf code records st] r have "e = None" by simp
  with b Cons.IH [of st1] Cons.prems show ?case by simp
qed

lemma loop_body_data:
  assumes "loop_body requests_get cf code st = (None, st')" and "stale_ok (data st)"
  shows "data st' = Some (rows_of requests_get cf code)"
proof -
  from assms(1) obtain d' where "data st' = Some d'"
    "data_frames st' = data_frames st @ [d']"
    by (cases "requests_get (make_url cf code)"; cases "data st")
       (auto simp: loop_body_def Let_def split: sum.splits)
  with loop_body_frames [OF assms] show ?thesis by simp
qed

lemma loop_body_failed:
  assumes "loop_body requests_get cf code st = (None, st')"
    and "requests_get (make_url cf code) = Inl f" and "stale_ok (data st)"
  shows "data st = Some []"
proof -
  from assms(1,2) obtain d d' where d: "data st = Some d" "flatten d = Inr d'"
    by (cases "data st") (auto simp: loop_body_def Let_def split: sum.splits)
  with assms(3) flatten_stale [of d d'] show ?thesis
    by (simp add: stale_ok_def)
qed

text \<open>
  A failed request gets through the loop only when the record set of the round before
  it is empty.
\<close>

lemma pull_failed:
  assumes "pull requests_get cf codes st = (None, st')" and "stale_ok (data st)"
    and "k < length codes" and "requests_get (make_url cf (codes ! k)) = Inl f"
  shows "if k = 0 then data st = Some [] else rows_of requests_get cf (codes ! (k - 1)) = []"
  using assms
proof (induction codes arbitrary: st k)
  case Nil
  then show ?case by simp
next
  case (Cons code rest)
  obtain e st1 where b: "loop_body requests_get cf code st = (e, st1)"
    by (cases "loop_body requests_get cf code st")
  with Cons.prems(1) have e: "e = None" and p: "pull requests_get cf rest st1 = (None, st')"
    by (cases e; simp)+
  note b = b [unfolded e]
  from loop_body_frames [OF b Cons.prems(2)] have s1: "stale_ok (data st1)" by simp
  from loop_body_data [OF b Cons.prems(2)]
  have d1: "data st1 = Some (rows_of requests_get cf code)" .
  show ?case
  proof (cases k)
    case 0
    with Cons.prems(4) have "requests_get (make_url cf code) = Inl f" by simp
    from loop_body_failed [OF b this Cons.prems(2)] 0 show ?thesis by simp
  next
    case (Suc j)
    with Cons.prems(3,4) have j: "j < length rest" "requests_get (make_url cf (rest ! j)) = Inl f"
      by simp_all
    from Cons.IH [OF p s1 j]
    have "if j = 0 then data st1 = Some [] else rows_of requests_get cf (rest ! (j - 1)) = []" .
    with d1 Suc show ?thesis by (cases j) simp_all
  qed
qed

section \<open>Chart assembly and the whole call\<close>

lemma select_years_Inr:
  "select_years sort_values d years = Inr df \<longleftrightarrow>
     d \<noteq> [] \<and> df = sort_values (filter (\<lambda>r. date r \<in> set years) d)"
  by (auto simp: select_years_def)

lemma getitem_Inr: "getitem xs i = Inr a \<longleftrightarrow> i < length xs \<and> a = xs ! i"
  by (auto simp: getitem_def)

lemma exn_bind_Inr: "exn_bind m f = Inr b \<longleftrightarrow> (\<exists>a. m = Inr a \<and> f a = Inr b)"
  by (cases m) (simp_all add: exn_bind_def)

lemma exn_bind_Inl: "exn_bind m f = Inl e \<longleftrightarrow> m = Inl e \<or> (\<exists>a. m = Inr a \<and> f a = Inl e)"
  by (cases m) (simp_all add: exn_bind_def)

lemma charts_Inr:
  "charts sort_values dfs = Inr figs \<longleftrightarrow>
     3 < length dfs \<and> dfs ! 0 \<noteq> [] \<and> dfs ! 1 \<noteq> [] \<and> dfs ! 3 \<noteq> [] \<and>
     figs =
       (let df1 = sort_values (filter (\<lambda>r. date r \<in> set years_one) (dfs ! 0));
            df2 = sort_values (filter (\<lambda>r. date r \<in> set years_rest) (dfs ! 1));
            df4 = sort_values (filter (\<lambda>r. date r \<in> set years_rest) (dfs ! 3));
            cl = unique (map country df1)
        in [Figure (scatter_traces df1 cl) layout_one, Figure (bar_traces df2 cl) layout_two,
            Figure (scatter_traces df2 cl) layout_three, Figure (bar_traces df4 cl) layout_four])"
  unfolding charts_def Let_def exn_bind_Inr select_years_Inr getitem_Inr
  by auto

lemma charts_Inl: "charts sort_values dfs = Inl e \<Longrightarrow> e = IndexError \<or> e = KeyError"
  unfolding charts_def Let_def exn_bind_Inl
  by (auto simp: getitem_def select_years_def split: if_splits)

lemma return_figures_cases:
  obtains (loop) e st where "pull requests_get (country_filter cs) inds
      \<lparr>countries = cs, indicators = inds, data = None, data_frames = [], urls = [], stdout = []\<rparr>
        = (Some e, st)"
      "return_figures sort_values requests_get cs inds = (Inl e, st)"
  | (charts) st where "pull requests_get (country_filter cs) inds
      \<lparr>countries = cs, indicators = inds, data = None, data_frames = [], urls = [], stdout = []\<rparr>
        = (None, st)"
      "return_figures sort_values requests_get cs inds = (charts sort_values (data_frames st), st)"
      "data_frames st = map (rows_of requests_get (country_filter cs)) inds"
proof -
  let ?st0 = "\<lparr>countries = cs, indicators = inds, data = None, data_frames = [], urls = [],
                stdout = []\<rparr> :: 'a frame"
  obtain e st where p: "pull requests_get (country_filter cs) inds ?st0 = (e, st)"
    by (cases "pull requests_get (country_filter cs) inds ?st0")
  show thesis
  proof (cases e)
    case None
    have "stale_ok (data ?st0)" by (simp add: stale_ok_def)
    with p None have "data_frames st = map (rows_of requests_get (country_filter cs)) inds"
      using pull_frames [of requests_get "country_filter cs" inds ?st0 st] by simp
    with p None show ?thesis
      by (intro charts) (simp_all add: return_figures_def)
  next
    case (Some e')
    with p show ?thesis
      by (intro loop [of e' st]) (simp_all add: return_figures_def)
  qed
qed

lemma return_figures_Inr:
  assumes "fst (return_figures sort_values requests_get cs inds) = Inr figs"
  shows "3 < length inds" and "figs = four_figures sort_values requests_get cs inds"
    and "rows_of requests_get (country_filter cs) (inds ! 0) \<noteq> []"
    and "rows_of requests_get (country_filter cs) (inds ! 1) \<noteq> []"
    and "rows_of requests_get (country_filter cs) (inds ! 3) \<noteq> []"
proof -
  let ?dfs = "map (rows_of requests_get (country_filter cs)) inds"
  have c: "charts sort_values ?dfs = Inr figs"
  proof (cases rule: return_figures_cases [of requests_get cs inds sort_values])
    case (loop e st)
    with assms show ?thesis by simp
  next
    case (charts st)
    with assms show ?thesis by simp
  qed
  then have "3 < length ?dfs" by (simp add: charts_Inr)
  then show l: "3 < length inds" by simp
  then have "0 < length inds" "1 < length inds" by linarith+
  with l have n: "?dfs ! 0 = rows_of requests_get (country_filter cs) (inds ! 0)"
    "?dfs ! 1 = rows_of requests_get (country_filter cs) (inds ! 1)"
    "?dfs ! 3 = rows_of requests_get (country_filter cs) (inds ! 3)"
    by (simp_all only: nth_map)
  from c have "?dfs ! 0 \<noteq> [] \<and> ?dfs ! 1 \<noteq> [] \<and> ?dfs ! 3 \<noteq> [] \<and>
     figs =
       (let df1 = sort_values (filter (\<lambda>r. date r \<in> set years_one) (?dfs ! 0));
            df2 = sort_values (filter (\<lambda>r. date r \<in> set years_rest) (?dfs ! 1));
            df4 = sort_values (filter (\<lambda>r. date r \<in> set years_rest) (?dfs ! 3));
            cl = unique (map country df1)
        in [Figure (scatter_traces df1 cl) layout_one, Figure (bar_traces df2 cl) layout_two,
            Figure (scatter_traces df2 cl) layout_three, Figure (bar_traces df4 cl) layout_four])"
    unfolding charts_Inr by blast
  then have r: "rows_of requests_get (country_filter cs) (inds ! 0) \<noteq> [] \<and>
     rows_of requests_get (country_filter cs) (inds ! 1) \<noteq> [] \<and>
     rows_of requests_get (country_filter cs) (inds ! 3) \<noteq> [] \<and>
     figs = four_figures sort_values requests_get cs inds"
    unfolding n four_figures_def countrylist_def df_one_def df_two_def df_four_def Let_def .
  then show "figs = four_figures sort_values requests_get cs inds" by blast
  from r show "rows_of requests_get (country_filter cs) (inds ! 0) \<noteq> []"
    "rows_of requests_get (country_filter cs) (inds ! 1) \<noteq> []"
    "rows_of requests_get (country_filter cs) (inds ! 3) \<noteq> []"
    by blast+
qed

lemma return_figures_ok:
  assumes "3 < length inds"
    and "fst (pull requests_get (country_filter cs) inds
      \<lparr>countries = cs, indicators = inds, data = None, data_frames = [], urls = [], stdout = []\<rparr>) = None"
    and "rows_of requests_get (country_filter cs) (inds ! 0) \<noteq> []"
    and "rows_of requests_get (country_filter cs) (inds ! 1) \<noteq> []"
    and "rows_of requests_get (country_filter cs) (inds ! 3) \<noteq> []"
  shows "fst (return_figures sort_values requests_get cs inds) =
    Inr (four_figures sort_values requests_get cs inds)"
proof (cases rule: return_figures_cases [of requests_get cs inds sort_values])
  case (loop e st)
  with assms(2) show ?thesis by simp
next
  case (charts st)
  from assms(1) have "0 < length inds" "1 < length inds" by linarith+
  with charts(3) assms(1) have "3 < length (data_frames st)"
    "data_frames st ! 0 = rows_of requests_get (country_filter cs) (inds ! 0)"
    "data_frames st ! 1 = rows_of requests_get (country_filter cs) (inds ! 1)"
    "data_frames st ! 3 = rows_of requests_get (country_filter cs) (inds ! 3)"
    by (simp_all only: nth_map length_map)
  with assms(3-5) have "charts sort_values (data_frames st) =
      Inr (four_figures sort_values requests_get cs inds)"
    unfolding charts_Inr four_figures_def countrylist_def df_one_def df_two_def
        df_four_def Let_def by (simp only: simp_thms)
  with charts(2) show ?thesis by simp
qed

lemma return_figures_args:
  "countries (snd (return_figures sort_values requests_get cs inds)) = cs"
  "indicators (snd (return_figures sort_values requests_get cs inds)) = inds"
proof -
  let ?st0 = "\<lparr>countries = cs, indicators = inds, data = None, data_frames = [], urls = [],
                stdout = []\<rparr> :: 'a frame"
  have "countries (snd (return_figures sort_values requests_get cs inds)) = cs \<and>
        indicators (snd (return_figures sort_values requests_get cs inds)) = inds"
  proof (cases rule: return_figures_cases [of requests_get cs inds sort_values])
    case (loop e st)
    with pull_args [of requests_get "country_filter cs" inds ?st0] show ?thesis by simp
  next
    case (charts st)
    with pull_args [of requests_get "country_filter cs" inds ?st0] show ?thesis by simp
  qed
  then show "countries (snd (return_figures sort_values requests_get cs inds)) = cs"
    "indicators (snd (return_figures sort_values requests_get cs inds)) = inds"
    by simp_all
qed

text \<open>The traces of a chart.\<close>

lemma scatter_traces_name: "map name (scatter_traces df cl) = cl"
  by (simp add: scatter_traces_def comp_def)

lemma bar_traces_name: "map name (bar_traces df cl) = cl"
  by (simp add: bar_traces_def comp_def)

lemma traces_x_val: "map x_val (scatter_traces df cl) = map x_val (bar_traces df cl)"
  by (simp add: scatter_traces_def bar_traces_def comp_def)

lemma traces_y_val: "map y_val (scatter_traces df cl) = map y_val (bar_traces df cl)"
  by (simp add: scatter_traces_def bar_traces_def comp_def)

lemma set_years_one: "set years_one = {''1990'', ''1995'', ''2000'', ''2005'', ''2010'', ''2014''}"
  by (simp add: years_one_def)

lemma set_years_rest: "set years_rest = {''1990'', ''1995'', ''2000'', ''2005'', ''2010'', ''2015''}"
  by (simp add: years_rest_def)

lemma four_figures_nth:
  "four_figures sv rg cs inds ! 0 =
     Figure (scatter_traces (df_one sv rg cs inds) (countrylist sv rg cs inds)) layout_one"
  "four_figures sv rg cs inds ! 1 =
     Figure (bar_traces (df_two sv rg cs inds) (countrylist sv rg cs inds)) layout_two"
  "four_figures sv rg cs inds ! 2 =
     Figure (scatter_traces (df_two sv rg cs inds) (countrylist sv rg cs inds)) layout_three"
  "four_figures sv rg cs inds ! 3 =
     Figure (bar_traces (df_four sv rg cs inds) (countrylist sv rg cs inds)) layout_four"
  by (simp_all add: four_figures_def numeral_2_eq_2 numeral_3_eq_3)

lemma four_figures_names:
  "f \<in> set (four_figures sv rg cs inds) \<Longrightarrow> map name (fig_data f) = countrylist sv rg cs inds"
  by (auto simp: four_figures_def scatter_traces_name bar_traces_name)

lemma traces_length:
  "length (scatter_traces df cl) = length cl" "length (bar_traces df cl) = length cl"
  by (simp_all add: scatter_traces_def bar_traces_def)

lemma filter_absent: "c \<notin> country ` set df \<Longrightarrow> filter (\<lambda>r. country r = c) df = []"
  by (auto simp: filter_empty_conv)

lemma scatter_traces_absent:
  "i < length cl \<Longrightarrow> cl ! i \<notin> country ` set df \<Longrightarrow>
     scatter_traces df cl ! i = Scatter [] [] ''lines+markers'' (cl ! i)"
  by (simp add: scatter_traces_def filter_absent)

lemma bar_traces_absent:
  "i < length cl \<Longrightarrow> cl ! i \<notin> country ` set df \<Longrightarrow> bar_traces df cl ! i = Bar [] [] (cl ! i)"
  by (simp add: bar_traces_def filter_absent)

lemma scatter_traces_kind:
  "s \<in> set (scatter_traces df cl) \<Longrightarrow>
     s = Scatter (x_val s) (y_val s) ''lines+markers'' (name s) \<and> trace_type s = ''scatter''"
  by (auto simp: scatter_traces_def)

lemma bar_traces_kind:
  "s \<in> set (bar_traces df cl) \<Longrightarrow> s = Bar (x_val s) (y_val s) (name s) \<and> trace_type s = ''bar''"
  by (auto simp: bar_traces_def)

lemma sorts_by_date_set: "sorts_by_date sort_values \<Longrightarrow> set (sort_values rows) = set rows"
  by (metis sorts_by_date_def set_mset_mset)

lemma frame_points:
  assumes "sorts_by_date sort_values"
  shows "mset (zip (map date (filter (\<lambda>r. country r = c)
                      (sort_values (filter (\<lambda>r. date r \<in> set years) rows))))
                   (map val (filter (\<lambda>r. country r = c)
                      (sort_values (filter (\<lambda>r. date r \<in> set years) rows)))))
         = kept_points (set years) rows c"
proof -
  let ?F = "filter (\<lambda>r. country r = c) (sort_values (filter (\<lambda>r. date r \<in> set years) rows))"
  have "zip (map date ?F) (map val ?F) = map (\<lambda>r. (date r, val r)) ?F"
    by (simp add: zip_map_map zip_same_conv_map comp_def)
  moreover from assms have "mset ?F =
      filter_mset (\<lambda>r. country r = c) (filter_mset (\<lambda>r. date r \<in> set years) (mset rows))"
    by (simp add: sorts_by_date_def)
  ultimately show ?thesis
    by (simp add: kept_points_def filter_filter_mset conj_commute)
qed

lemma scatter_traces_points:
  assumes "sorts_by_date sort_values" and "i < length cl"
  shows "mset (zip (x_val (scatter_traces (sort_values (filter (\<lambda>r. date r \<in> set years) rows)) cl ! i))
                   (y_val (scatter_traces (sort_values (filter (\<lambda>r. date r \<in> set years) rows)) cl ! i)))
         = kept_points (set years) rows (cl ! i)"
  using assms(2) frame_points [OF assms(1)] by (simp add: scatter_traces_def)

lemma bar_traces_points:
  assumes "sorts_by_date sort_values" and "i < length cl"
  shows "mset (zip (x_val (bar_traces (sort_values (filter (\<lambda>r. date r \<in> set years) rows)) cl ! i))
                   (y_val (bar_traces (sort_values (filter (\<lambda>r. date r \<in> set years) rows)) cl ! i)))
         = kept_points (set years) rows (cl ! i)"
  using assms(2) frame_points [OF assms(1)] by (simp add: bar_traces_def)

lemma scatter_traces_x:
  "s \<in> set (scatter_traces df cl) \<Longrightarrow> set (x_val s) \<subseteq> date ` set df"
  by (auto simp: scatter_traces_def)

lemma bar_traces_x:
  "s \<in> set (bar_traces df cl) \<Longrightarrow> set (x_val s) \<subseteq> date ` set df"
  by (auto simp: bar_traces_def)

lemma df_dates:
  assumes "sorts_by_date sort_values"
  shows "date ` set (df_one sort_values requests_get cs inds) \<subseteq> set years_one"
    and "date ` set (df_two sort_values requests_get cs inds) \<subseteq> set years_rest"
    and "date ` set (df_four sort_values requests_get cs inds) \<subseteq> set years_rest"
  using sorts_by_date_set [OF assms] by (auto simp: df_one_def df_two_def df_four_def)

lemma four_figures_data:
  "fig_data (four_figures sv rg cs inds ! 0) =
     scatter_traces (df_one sv rg cs inds) (countrylist sv rg cs inds)"
  "fig_data (four_figures sv rg cs inds ! 1) =
     bar_traces (df_two sv rg cs inds) (countrylist sv rg cs inds)"
  "fig_data (four_figures sv rg cs inds ! 2) =
     scatter_traces (df_two sv rg cs inds) (countrylist sv rg cs inds)"
  "fig_data (four_figures sv rg cs inds ! 3) =
     bar_traces (df_four sv rg cs inds) (countrylist sv rg cs inds)"
  unfolding four_figures_nth by simp_all

section \<open>The store-level model\<close>

text \<open>
  On distinct references in range, flattening in place raises when flattening the values
  raises, and otherwise leaves the flattened values in the objects and every other object
  as it was.
\<close>

lemma flatten_in_place_correct:
  assumes "distinct refs" and "list_all (\<lambda>a. a < length h) refs"
  shows "case flatten (map (\<lambda>a. h ! a) refs) of
           Inl e \<Rightarrow> fst (flatten_in_place refs h) = Some e
         | Inr d' \<Rightarrow>
             fst (flatten_in_place refs h) = None \<and>
             length (snd (flatten_in_place refs h)) = length h \<and>
             map (\<lambda>a. snd (flatten_in_place refs h) ! a) refs = d' \<and>
             (\<forall>b. b \<notin> set refs \<longrightarrow> snd (flatten_in_place refs h) ! b = h ! b)"
  using assms
proof (induction refs arbitrary: h)
  case Nil
  then show ?case by simp
next
  case (Cons a rest)
  from Cons.prems have a: "a < length h" "a \<notin> set rest" and rest: "distinct rest"
    "list_all (\<lambda>a. a < length h) rest"
    by simp_all
  show ?case
  proof (cases "indicator (h ! a)")
    case (Str s)
    then show ?thesis by simp
  next
    case (Dict iid i)
    note ind = this
    show ?thesis
    proof (cases "country (h ! a)")
      case (Str s)
      with ind a show ?thesis by (simp add: Let_def)
    next
      case (Dict cid c)
      let ?v = "(h ! a)\<lparr>indicator := Str i, country := Str c\<rparr>"
      let ?h2 = "h[a := ?v]"
      have step: "flatten_in_place (a # rest) h = flatten_in_place rest ?h2"
        using ind Dict a by (simp add: Let_def)
      have same: "map (\<lambda>b. ?h2 ! b) rest = map (\<lambda>b. h ! b) rest"
        using a(2) by (intro map_cong refl) (metis nth_list_update_neq)
      from rest have rest2: "list_all (\<lambda>a. a < length ?h2) rest" by simp
      note IH = Cons.IH [OF rest(1) rest2, unfolded same]
      show ?thesis
      proof (cases "flatten (map (\<lambda>b. h ! b) rest)")
        case (Inl e)
        with IH ind Dict step show ?thesis by simp
      next
        case (Inr d')
        with IH have r: "fst (flatten_in_place rest ?h2) = None"
          "length (snd (flatten_in_place rest ?h2)) = length h"
          "map (\<lambda>a. snd (flatten_in_place rest ?h2) ! a) rest = d'"
          "\<forall>b. b \<notin> set rest \<longrightarrow> snd (flatten_in_place rest ?h2) ! b = ?h2 ! b"
          by simp_all
        from r(4) a have "snd (flatten_in_place rest ?h2) ! a = ?v" by simp
        moreover from r(4) have "\<forall>b. b \<notin> set (a # rest) \<longrightarrow>
            snd (flatten_in_place rest ?h2) ! b = h ! b"
          by (simp add: nth_list_update)
        ultimately show ?thesis
          using Inr ind Dict step r(1-3) by simp
      qed
    qed
  qed
qed

text \<open>The references of freshly parsed records.\<close>

lemma fresh_refs:
  "map (\<lambda>a. (h @ records) ! a) [length h ..< length h + length records] = records"
proof (rule nth_equalityI)
  show "length (map (\<lambda>a. (h @ records) ! a) [length h ..< length h + length records]) =
      length records"
    by simp
next
  fix i
  assume "i < length (map (\<lambda>a. (h @ records) ! a) [length h ..< length h + length records])"
  then have "i < length records" by simp
  then show "map (\<lambda>a. (h @ records) ! a) [length h ..< length h + length records] ! i =
      records ! i"
    by (simp add: nth_append)
qed

lemma fresh_refs_valid:
  "list_all (\<lambda>a. a < length (h @ records)) [length h ..< length h + length records]"
  by (simp add: list_all_iff)

text \<open>
  Against a collaborator that parses afresh, a round on the store does what the round on
  values does, from any heap.
\<close>

lemma loop_body_store_parsing:
  assumes ag: "agrees st w" and so: "stale_ok (data st)"
  shows "fst (loop_body_store (parsing body) cf code w) = fst (loop_body body cf code st) \<and>
     (fst (loop_body body cf code st) = None \<longrightarrow>
        agrees (snd (loop_body body cf code st)) (snd (loop_body_store (parsing body) cf code w)))"
proof (cases "body (make_url cf code)")
  case (Inl f)
  show ?thesis
  proof (cases "data_refs w")
    case None
    with ag have "data st = None" by (simp add: agrees_def)
    with None Inl show ?thesis
      by (simp add: loop_body_def loop_body_store_def parsing_def Let_def)
  next
    case (Some refs)
    let ?h = "heap w"
    let ?d = "map (\<lambda>a. ?h ! a) refs"
    from ag Some have d: "data st = Some ?d" and ok: "distinct refs"
      "list_all (\<lambda>a. a < length ?h) refs"
      by (simp_all add: agrees_def)
    note F = flatten_in_place_correct [OF ok]
    show ?thesis
    proof (cases "flatten ?d")
      case (Inl e)
      with F have "fst (flatten_in_place refs ?h) = Some e" by simp
      then obtain h' where "flatten_in_place refs ?h = (Some e, h')"
        by (cases "flatten_in_place refs ?h") auto
      with Inl \<open>body (make_url cf code) = Inl f\<close> d Some show ?thesis
        by (simp add: loop_body_def loop_body_store_def parsing_def Let_def)
    next
      case (Inr d')
      from so d have "list_all (\<lambda>v. \<not> nested v) ?d" by (simp add: stale_ok_def)
      with Inr have "?d = []" "d' = []" using flatten_stale by blast+
      then have e: "refs = []" by simp_all
      with Inr \<open>d' = []\<close> \<open>body (make_url cf code) = Inl f\<close> d Some ag show ?thesis
        by (simp add: loop_body_def loop_body_store_def parsing_def Let_def agrees_def)
    qed
  qed
next
  case (Inr records)
  let ?h = "heap w @ records"
  let ?refs = "[length (heap w) ..< length (heap w) + length records]"
  have ok: "distinct ?refs" "list_all (\<lambda>a. a < length ?h) ?refs"
    using fresh_refs_valid [of "heap w" records] by simp_all
  note F = flatten_in_place_correct [OF ok, unfolded fresh_refs]
  show ?thesis
  proof (cases "flatten records")
    case (Inl e)
    with F have "fst (flatten_in_place ?refs ?h) = Some e" by simp
    then obtain h' where "flatten_in_place ?refs ?h = (Some e, h')"
      by (cases "flatten_in_place ?refs ?h") auto
    with Inl Inr show ?thesis
      by (simp add: loop_body_def loop_body_store_def parsing_def Let_def)
  next
    case d': (Inr d')
    obtain e h' where fl: "flatten_in_place ?refs ?h = (e, h')"
      by (cases "flatten_in_place ?refs ?h")
    with F d' have e: "e = None" and h': "length h' = length ?h"
      "map (\<lambda>a. h' ! a) ?refs = d'" "\<forall>b. b \<notin> set ?refs \<longrightarrow> h' ! b = ?h ! b"
      by simp_all
    have old: "map (\<lambda>a. h' ! a) fr = map (\<lambda>a. heap w ! a) fr"
      if "list_all (\<lambda>a. a < length (heap w)) fr" for fr
    proof (intro map_cong refl)
      fix a assume "a \<in> set fr"
      with that have a: "a < length (heap w)" by (simp add: list_all_iff)
      then have "a \<notin> set ?refs" by simp
      with h'(3) have "h' ! a = ?h ! a" by blast
      with a show "h' ! a = heap w ! a" by (simp add: nth_append)
    qed
    from ag have frames: "list_all (list_all (\<lambda>a. a < length (heap w))) (frames_refs w)"
      "data_frames st = map (map (\<lambda>a. heap w ! a)) (frames_refs w)"
      "urls st = store_urls w" "stdout st = store_stdout w"
      by (simp_all add: agrees_def)
    have "map (map (\<lambda>a. h' ! a)) (frames_refs w) =
        map (map (\<lambda>a. heap w ! a)) (frames_refs w)"
    proof (rule map_cong [OF refl])
      fix fr assume "fr \<in> set (frames_refs w)"
      with frames(1) have "list_all (\<lambda>a. a < length (heap w)) fr"
        by (simp add: list_all_iff)
      then show "map (\<lambda>a. h' ! a) fr = map (\<lambda>a. heap w ! a) fr" by (rule old)
    qed
    moreover from frames(1) h'(1) have "list_all (list_all (\<lambda>a. a < length h')) (frames_refs w)"
      by (fastforce simp: list_all_iff intro: trans_less_add1)
    moreover from ok(2) h'(1) have "list_all (\<lambda>a. a < length h') ?refs" by simp
    ultimately show ?thesis
      using Inr d' fl e h'(2) frames(2-4) ok(1)
      by (simp add: loop_body_def loop_body_store_def parsing_def Let_def agrees_def)
  qed
qed

lemma pull_store_parsing:
  assumes "agrees st w" and "stale_ok (data st)"
  shows "fst (pull_store (parsing body) cf codes w) = fst (pull body cf codes st) \<and>
     (fst (pull body cf codes st) = None \<longrightarrow>
        agrees (snd (pull body cf codes st)) (snd (pull_store (parsing body) cf codes w)))"
  using assms
proof (induction codes arbitrary: st w)
  case Nil
  then show ?case by simp
next
  case (Cons code rest)
  obtain e st1 where b: "loop_body body cf code st = (e, st1)"
    by (cases "loop_body body cf code st")
  obtain e' w1 where b': "loop_body_store (parsing body) cf code w = (e', w1)"
    by (cases "loop_body_store (parsing body) cf code w")
  from loop_body_store_parsing [OF Cons.prems, of body cf code] b b'
  have e: "e' = e" and ag: "e = None \<Longrightarrow> agrees st1 w1"
    by simp_all
  show ?case
  proof (cases e)
    case None
    from loop_body_frames [OF b [unfolded None] Cons.prems(2)] have "stale_ok (data st1)"
      by simp
    from Cons.IH [OF ag [OF None] this] b b' e None show ?thesis by simp
  next
    case (Some x)
    with b b' e show ?thesis by simp
  qed
qed

lemma return_figures_store_parsing:
  "fst (return_figures_store sort_values (parsing body) cs inds h) =
     fst (return_figures sort_values body cs inds)"
proof -
  let ?st0 = "\<lparr>countries = cs, indicators = inds, data = None, data_frames = [], urls = [],
                stdout = []\<rparr> :: 'a frame"
  let ?w0 = "\<lparr>heap = h, data_refs = None, frames_refs = [], store_urls = [],
               store_stdout = []\<rparr>"
  have "agrees ?st0 ?w0" "stale_ok (data ?st0)"
    by (simp_all add: agrees_def stale_ok_def)
  note P = pull_store_parsing [OF this, of body "country_filter cs" inds]
  obtain e st where p: "pull body (country_filter cs) inds ?st0 = (e, st)"
    by (cases "pull body (country_filter cs) inds ?st0")
  obtain e' w where p': "pull_store (parsing body) (country_filter cs) inds ?w0 = (e', w)"
    by (cases "pull_store (parsing body) (country_filter cs) inds ?w0")
  from P p p' have e: "e' = e" and ag: "e = None \<Longrightarrow> agrees st w"
    by simp_all
  show ?thesis
  proof (cases e)
    case None
    from ag [OF None] have "data_frames st = map (map (\<lambda>a. heap w ! a)) (frames_refs w)"
      by (simp add: agrees_def)
    with p p' e None show ?thesis
      by (simp add: return_figures_def return_figures_store_def)
  next
    case (Some x)
    with p p' e show ?thesis
      by (simp add: return_figures_def return_figures_store_def)
  qed
qed

section \<open>The concrete run\<close>

lemma sorts_by_date_sort_key: "sorts_by_date (sort_key date)"
  by (simp add: sorts_by_date_def)

lemma demo_filter: "country_filter demo_countries = ''can;bra''"
  by (simp add: country_filter_def demo_countries_def lower_def lower_char_def)

lemma demo_run:
  "fst (return_figures (sort_key date) demo_get demo_countries indicators_default) =
     Inr demo_figures"
  by code_simp

section \<open>The claims\<close>

text \<open>
  C1 fails as stated: when the response for the first indicator holds no record, all four
  requests succeed and the call raises \<^verbatim>\<open>KeyError\<close>. (So does an empty response for
  the second or fourth indicator; with fewer than four indicators the call raises
  \<^verbatim>\<open>IndexError\<close>.)
\<close>

theorem four_figures_counterexample:
  "map (\<lambda>code. case empty_get (make_url (country_filter demo_countries) code) of
                   Inr records \<Rightarrow> Some (length records)
                 | Inl _ \<Rightarrow> None) indicators_default = [Some 0, Some 3, Some 1, Some 3] \<and>
   fst (return_figures (sort_key date) empty_get demo_countries indicators_default) = Inl KeyError"
  by code_simp

text \<open>
  C1, amended. For every countries mapping and every indicators list of at least four
  codes: when every request succeeds with nested records, and the responses for the
  indicators at index 0, 1 and 3 hold at least one record each, the call returns exactly
  four figures, in this order: the line chart of indicator 0 with the first layout, the
  stacked bar chart of indicator 1 with the second, the line chart (of indicator 1 again)
  with the third, the stacked bar chart of indicator 3 with the fourth.
\<close>

theorem four_figures_in_order:
  assumes "4 \<le> length inds"
    and "list_all (\<lambda>code. case requests_get (make_url (country_filter cs) code) of
                            Inr records \<Rightarrow> list_all nested records
                          | Inl _ \<Rightarrow> False) inds"
    and "list_all (\<lambda>i. rows_of requests_get (country_filter cs) (inds ! i) \<noteq> []) [0, 1, 3]"
  shows
    "let canonical = countrylist sort_values requests_get cs inds;
         figs = [Figure (scatter_traces (df_one sort_values requests_get cs inds) canonical)
                   layout_one,
                 Figure (bar_traces (df_two sort_values requests_get cs inds) canonical)
                   layout_two,
                 Figure (scatter_traces (df_two sort_values requests_get cs inds) canonical)
                   layout_three,
                 Figure (bar_traces (df_four sort_values requests_get cs inds) canonical)
                   layout_four]
     in fst (return_figures sort_values requests_get cs inds) = Inr figs \<and> length figs = 4"
proof -
  from assms(1) have "3 < length inds" by simp
  moreover from assms(2) have "fst (pull requests_get (country_filter cs) inds
      \<lparr>countries = cs, indicators = inds, data = None, data_frames = [], urls = [],
         stdout = []\<rparr>) = None"
    by (rule pull_all_nested)
  moreover from assms(3) have "rows_of requests_get (country_filter cs) (inds ! 0) \<noteq> []"
    "rows_of requests_get (country_filter cs) (inds ! 1) \<noteq> []"
    "rows_of requests_get (country_filter cs) (inds ! 3) \<noteq> []"
    by simp_all
  ultimately have "fst (return_figures sort_values requests_get cs inds) =
      Inr (four_figures sort_values requests_get cs inds)"
    by (rule return_figures_ok)
  then show ?thesis by (simp add: four_figures_def Let_def)
qed

theorem four_figures_in_order_witness:
  "4 \<le> length indicators_default \<and>
   list_all (\<lambda>code. case demo_get (make_url (country_filter demo_countries) code) of
                       Inr records \<Rightarrow> list_all nested records
                     | Inl _ \<Rightarrow> False) indicators_default \<and>
   list_all (\<lambda>i. rows_of demo_get (country_filter demo_countries) (indicators_default ! i) \<noteq> [])
     [0, 1, 3] \<and>
   fst (return_figures (sort_key date) demo_get demo_countries indicators_default) =
     Inr [Figure [Scatter [''1990'', ''2014''] [1460, 2620] ''lines+markers'' (Str ''Brazil''),
                  Scatter [''1990'', ''2014''] [16170, 15540] ''lines+markers'' (Str ''Canada'')]
            layout_one,
          Figure [Bar [] [] (Str ''Brazil''),
                  Bar [''1990'', ''2015''] [21, 22] (Str ''Canada'')]
            layout_two,
          Figure [Scatter [] [] ''lines+markers'' (Str ''Brazil''),
                  Scatter [''1990'', ''2015''] [21, 22] ''lines+markers'' (Str ''Canada'')]
            layout_three,
          Figure [Bar [''1990'', ''2015''] [600000, 1000000] (Str ''Brazil''),
                  Bar [''2015''] [720000] (Str ''Canada'')]
            layout_four]"
proof -
  have h1: "4 \<le> length indicators_default"
    by (simp add: indicators_default_def)
  have h2: "list_all (\<lambda>code. case demo_get (make_url (country_filter demo_countries) code) of
                       Inr records \<Rightarrow> list_all nested records
                     | Inl _ \<Rightarrow> False) indicators_default"
    by code_simp
  have h3: "list_all (\<lambda>i. rows_of demo_get (country_filter demo_countries) (indicators_default ! i) \<noteq> [])
     [0, 1, 3]"
    by code_simp
  from four_figures_in_order [OF h1 h2 h3, of "sort_key date"]
  have "\<exists>figs. fst (return_figures (sort_key date) demo_get demo_countries indicators_default) =
      Inr figs \<and> length figs = 4"
    by (simp add: Let_def)
  with demo_run h1 h2 h3 show ?thesis
    by (simp add: demo_figures_def)
qed

text \<open>
  C2. In a call that returns, the canonical country order is fixed once, from the
  flattened records of the first indicator: the rows whose date is one of 1990, 1995, 2000,
  2005, 2010, 2014, arranged by ascending date, and of those the distinct countries in
  order of first appearance. The series names of each of the four charts are this list, in
  this order; the records of the other indicators have no part in it.
\<close>

theorem canonical_country_order:
  assumes "fst (return_figures sort_values requests_get cs inds) = Inr figs"
    and "sorts_by_date sort_values"
  shows
    "let rows = filter (\<lambda>r. date r \<in> {''1990'', ''1995'', ''2000'', ''2005'', ''2010'', ''2014''})
                  (rows_of requests_get (country_filter cs) (inds ! 0));
         df = sort_values rows;
         canonical = unique (map country df)
     in mset df = mset rows \<and> sorted (map date df) \<and>
        (\<forall>f\<in>set figs. map name (fig_data f) = canonical)"
proof -
  from assms(1) have figs: "figs = four_figures sort_values requests_get cs inds"
    by (rule return_figures_Inr)
  have "\<forall>f\<in>set figs. map name (fig_data f) = countrylist sort_values requests_get cs inds"
    unfolding figs by (simp add: four_figures_names)
  moreover from assms(2) have
    "mset (df_one sort_values requests_get cs inds) =
       mset (filter (\<lambda>r. date r \<in> set years_one)
         (rows_of requests_get (country_filter cs) (inds ! 0)))"
    "sorted (map date (df_one sort_values requests_get cs inds))"
    by (simp_all add: sorts_by_date_def df_one_def)
  ultimately show ?thesis
    by (simp add: Let_def countrylist_def df_one_def set_years_one)
qed

theorem canonical_country_order_witness:
  "fst (return_figures (sort_key date) demo_get demo_countries indicators_default) = Inr demo_figures \<and>
   sorts_by_date (sort_key date :: int observation list \<Rightarrow> _) \<and>
   map (\<lambda>f. map name (fig_data f)) demo_figures =
     [[Str ''Brazil'', Str ''Canada''], [Str ''Brazil'', Str ''Canada''],
      [Str ''Brazil'', Str ''Canada''], [Str ''Brazil'', Str ''Canada'']] \<and>
   unique (map country (sort_key date
      (filter (\<lambda>r. date r \<in> {''1990'', ''1995'', ''2000'', ''2005'', ''2010'', ''2014''})
         (rows_of demo_get (country_filter demo_countries) (indicators_default ! 0)))))
     = [Str ''Brazil'', Str ''Canada'']"
proof -
  have names: "map (\<lambda>f. map name (fig_data f)) demo_figures =
     [[Str ''Brazil'', Str ''Canada''], [Str ''Brazil'', Str ''Canada''],
      [Str ''Brazil'', Str ''Canada''], [Str ''Brazil'', Str ''Canada'']]"
    by (simp add: demo_figures_def)
  from canonical_country_order [OF demo_run sorts_by_date_sort_key]
  have "\<forall>f\<in>set demo_figures. map name (fig_data f) =
      unique (map country (sort_key date
        (filter (\<lambda>r. date r \<in> {''1990'', ''1995'', ''2000'', ''2005'', ''2010'', ''2014''})
           (rows_of demo_get (country_filter demo_countries) (indicators_default ! 0)))))"
    by (simp add: Let_def)
  then have "map name (fig_data (hd demo_figures)) =
      unique (map country (sort_key date
        (filter (\<lambda>r. date r \<in> {''1990'', ''1995'', ''2000'', ''2005'', ''2010'', ''2014''})
           (rows_of demo_get (country_filter demo_countries) (indicators_default ! 0)))))"
    by (simp add: demo_figures_def)
  moreover have "map name (fig_data (hd demo_figures)) = [Str ''Brazil'', Str ''Canada'']"
    by (simp add: demo_figures_def)
  ultimately show ?thesis
    using demo_run sorts_by_date_sort_key names by simp
qed

text \<open>
  C3. In a call that returns, the third chart is built from the records of the indicator
  at index 1, the source of the second chart, and not from those of index 2: both charts
  are built from the same frame (the rows of index 1 whose date is one of 1990, 1995, 2000,
  2005, 2010, 2015, sorted) over the canonical country order, so position by position
  their series have the same name, the same x list and the same y list.
\<close>

theorem chart_three_reads_indicator_one:
  assumes "fst (return_figures sort_values requests_get cs inds) = Inr figs"
  shows
    "let df = sort_values
                (filter (\<lambda>r. date r \<in> {''1990'', ''1995'', ''2000'', ''2005'', ''2010'', ''2015''})
                   (rows_of requests_get (country_filter cs) (inds ! 1)));
         canonical = map name (fig_data (figs ! 0))
     in fig_data (figs ! 1) = bar_traces df canonical \<and>
        fig_data (figs ! 2) = scatter_traces df canonical \<and>
        map name (fig_data (figs ! 2)) = canonical \<and>
        map name (fig_data (figs ! 1)) = canonical \<and>
        map x_val (fig_data (figs ! 2)) = map x_val (fig_data (figs ! 1)) \<and>
        map y_val (fig_data (figs ! 2)) = map y_val (fig_data (figs ! 1))"
proof -
  from assms have figs: "figs = four_figures sort_values requests_get cs inds"
    by (rule return_figures_Inr)
  show ?thesis
    unfolding figs four_figures_nth Let_def
    by (simp add: scatter_traces_name bar_traces_name traces_x_val traces_y_val
        df_two_def set_years_rest)
qed

theorem chart_three_reads_indicator_one_witness:
  "fst (return_figures (sort_key date) demo_get demo_countries indicators_default) = Inr demo_figures \<and>
   map x_val (fig_data (demo_figures ! 2)) = [[], [''1990'', ''2015'']] \<and>
   map x_val (fig_data (demo_figures ! 1)) = [[], [''1990'', ''2015'']] \<and>
   map y_val (fig_data (demo_figures ! 2)) = [[], [21, 22]] \<and>
   map y_val (fig_data (demo_figures ! 1)) = [[], [21, 22]] \<and>
   fig_data (demo_figures ! 2) =
     scatter_traces
       (sort_key date
          (filter (\<lambda>r. date r \<in> {''1990'', ''1995'', ''2000'', ''2005'', ''2010'', ''2015''})
             (rows_of demo_get (country_filter demo_countries) (indicators_default ! 1))))
       [Str ''Brazil'', Str ''Canada'']"
proof -
  have vals: "map x_val (fig_data (demo_figures ! 2)) = [[], [''1990'', ''2015'']]"
    "map x_val (fig_data (demo_figures ! 1)) = [[], [''1990'', ''2015'']]"
    "map y_val (fig_data (demo_figures ! 2)) = [[], [21, 22]]"
    "map y_val (fig_data (demo_figures ! 1)) = [[], [21, 22]]"
    "map name (fig_data (demo_figures ! 0)) = [Str ''Brazil'', Str ''Canada'']"
    by (simp_all add: demo_figures_def)
  from chart_three_reads_indicator_one [OF demo_run] vals(5)
  have "fig_data (demo_figures ! 2) =
     scatter_traces
       (sort_key date
          (filter (\<lambda>r. date r \<in> {''1990'', ''1995'', ''2000'', ''2005'', ''2010'', ''2015''})
             (rows_of demo_get (country_filter demo_countries) (indicators_default ! 1))))
       [Str ''Brazil'', Str ''Canada'']"
    by (simp add: Let_def)
  with demo_run vals(1-4) show ?thesis by simp
qed

text \<open>
  C4. In a call that returns, the dates of every series of chart 1 are among 1990, 1995,
  2000, 2005, 2010, 2014 and those of charts 2, 3 and 4 among 1990, 1995, 2000, 2005, 2010,
  2015, so 1992 occurs in no series. More precisely the points of a series are the records
  of its country in the chart's source (indicator 0 for chart 1, indicator 1 for charts 2
  and 3, indicator 3 for chart 4) whose date string is one of the chart's years, each as
  often as it occurs.
\<close>

theorem year_filter:
  assumes "fst (return_figures sort_values requests_get cs inds) = Inr figs"
    and "sorts_by_date sort_values"
  shows
    "let years_14 = {''1990'', ''1995'', ''2000'', ''2005'', ''2010'', ''2014''};
         years_15 = {''1990'', ''1995'', ''2000'', ''2005'', ''2010'', ''2015''};
         rows = (\<lambda>i. rows_of requests_get (country_filter cs) (inds ! i));
         points = (\<lambda>s. mset (zip (x_val s) (y_val s)))
     in (\<forall>s\<in>set (fig_data (figs ! 0)). set (x_val s) \<subseteq> years_14) \<and>
        (\<forall>k\<in>{1, 2, 3}. \<forall>s\<in>set (fig_data (figs ! k)). set (x_val s) \<subseteq> years_15) \<and>
        (\<forall>f\<in>set figs. \<forall>s\<in>set (fig_data f). ''1992'' \<notin> set (x_val s)) \<and>
        (\<forall>s\<in>set (fig_data (figs ! 0)). points s = kept_points years_14 (rows 0) (name s)) \<and>
        (\<forall>s\<in>set (fig_data (figs ! 1)). points s = kept_points years_15 (rows 1) (name s)) \<and>
        (\<forall>s\<in>set (fig_data (figs ! 2)). points s = kept_points years_15 (rows 1) (name s)) \<and>
        (\<forall>s\<in>set (fig_data (figs ! 3)). points s = kept_points years_15 (rows 3) (name s))"
proof -
  from assms(1) have figs: "figs = four_figures sort_values requests_get cs inds"
    by (rule return_figures_Inr)
  note d = df_dates [OF assms(2), of requests_get cs inds]
  note fd = four_figures_data [of sort_values requests_get cs inds, folded figs]
  have one: "\<forall>s\<in>set (fig_data (figs ! 0)). set (x_val s) \<subseteq> set years_one"
    unfolding fd using d(1) scatter_traces_x by fastforce
  have rest: "\<forall>k\<in>{1, 2, 3}. \<forall>s\<in>set (fig_data (figs ! k)). set (x_val s) \<subseteq> set years_rest"
  proof (intro ballI)
    fix k :: nat and s
    assume "k \<in> {1, 2, 3}" and s: "s \<in> set (fig_data (figs ! k))"
    then consider "k = 1" | "k = 2" | "k = 3" by auto
    then show "set (x_val s) \<subseteq> set years_rest"
    proof cases
      case 1
      with s have "s \<in> set (bar_traces (df_two sort_values requests_get cs inds)
          (countrylist sort_values requests_get cs inds))"
        by (simp only: fd)
      with d(2) bar_traces_x show ?thesis by fastforce
    next
      case 2
      with s have "s \<in> set (scatter_traces (df_two sort_values requests_get cs inds)
          (countrylist sort_values requests_get cs inds))"
        by (simp only: fd)
      with d(2) scatter_traces_x show ?thesis by fastforce
    next
      case 3
      with s have "s \<in> set (bar_traces (df_four sort_values requests_get cs inds)
          (countrylist sort_values requests_get cs inds))"
        by (simp only: fd)
      with d(3) bar_traces_x show ?thesis by fastforce
    qed
  qed
  have never: "\<forall>f\<in>set figs. \<forall>s\<in>set (fig_data f). ''1992'' \<notin> set (x_val s)"
  proof (intro ballI)
    fix f s
    assume "f \<in> set figs" and s: "s \<in> set (fig_data f)"
    then have "f = figs ! 0 \<or> f = figs ! 1 \<or> f = figs ! 2 \<or> f = figs ! 3"
      by (auto simp: figs four_figures_def)
    with s one rest have "set (x_val s) \<subseteq> set years_one \<or> set (x_val s) \<subseteq> set years_rest"
      by auto
    then show "''1992'' \<notin> set (x_val s)"
      by (auto simp: set_years_one set_years_rest)
  qed
  have pts_scatter: "mset (zip (x_val s) (y_val s)) = kept_points (set years) rows (name s)"
    if "s \<in> set (scatter_traces (sort_values (filter (\<lambda>r. date r \<in> set years) rows)) cl)"
    for s years cl and rows :: "'a observation list"
  proof -
    from that obtain i where i: "i < length cl"
      "s = scatter_traces (sort_values (filter (\<lambda>r. date r \<in> set years) rows)) cl ! i"
      by (auto simp: in_set_conv_nth traces_length)
    then have "name s = cl ! i" by (simp add: scatter_traces_def)
    with i scatter_traces_points [OF assms(2) i(1), of years rows] show ?thesis by simp
  qed
  have pts_bar: "mset (zip (x_val s) (y_val s)) = kept_points (set years) rows (name s)"
    if "s \<in> set (bar_traces (sort_values (filter (\<lambda>r. date r \<in> set years) rows)) cl)"
    for s years cl and rows :: "'a observation list"
  proof -
    from that obtain i where i: "i < length cl"
      "s = bar_traces (sort_values (filter (\<lambda>r. date r \<in> set years) rows)) cl ! i"
      by (auto simp: in_set_conv_nth traces_length)
    then have "name s = cl ! i" by (simp add: bar_traces_def)
    with i bar_traces_points [OF assms(2) i(1), of years rows] show ?thesis by simp
  qed
  have pts: "\<forall>s\<in>set (fig_data (figs ! 0)). mset (zip (x_val s) (y_val s)) =
        kept_points (set years_one) (rows_of requests_get (country_filter cs) (inds ! 0)) (name s)"
    "\<forall>s\<in>set (fig_data (figs ! 1)). mset (zip (x_val s) (y_val s)) =
        kept_points (set years_rest) (rows_of requests_get (country_filter cs) (inds ! 1)) (name s)"
    "\<forall>s\<in>set (fig_data (figs ! 2)). mset (zip (x_val s) (y_val s)) =
        kept_points (set years_rest) (rows_of requests_get (country_filter cs) (inds ! 1)) (name s)"
    "\<forall>s\<in>set (fig_data (figs ! 3)). mset (zip (x_val s) (y_val s)) =
        kept_points (set years_rest) (rows_of requests_get (country_filter cs) (inds ! 3)) (name s)"
    unfolding fd df_one_def df_two_def df_four_def
    using pts_scatter pts_bar by blast+
  from one rest never pts show ?thesis
    unfolding Let_def by (simp only: set_years_one set_years_rest simp_thms)
qed

theorem year_filter_witness:
  "fst (return_figures (sort_key date) demo_get demo_countries indicators_default) = Inr demo_figures \<and>
   sorts_by_date (sort_key date :: int observation list \<Rightarrow> _) \<and>
   map date (rows_of demo_get (country_filter demo_countries) (indicators_default ! 0))
     = [''2014'', ''1992'', ''1990'', ''2014'', ''1990''] \<and>
   map date (rows_of demo_get (country_filter demo_countries) (indicators_default ! 1))
     = [''2015'', ''2014'', ''1990''] \<and>
   map x_val (fig_data (demo_figures ! 0)) = [[''1990'', ''2014''], [''1990'', ''2014'']] \<and>
   map x_val (fig_data (demo_figures ! 1)) = [[], [''1990'', ''2015'']] \<and>
   list_all (\<lambda>f. list_all (\<lambda>s. ''1992'' \<notin> set (x_val s)) (fig_data f)) demo_figures"
proof -
  from year_filter [OF demo_run sorts_by_date_sort_key]
  have "\<forall>f\<in>set demo_figures. \<forall>s\<in>set (fig_data f). ''1992'' \<notin> set (x_val s)"
    unfolding Let_def by blast
  then have "list_all (\<lambda>f. list_all (\<lambda>s. ''1992'' \<notin> set (x_val s)) (fig_data f)) demo_figures"
    by (simp add: list_all_iff)
  moreover have "map date (rows_of demo_get (country_filter demo_countries) (indicators_default ! 0))
     = [''2014'', ''1992'', ''1990'', ''2014'', ''1990'']"
    "map date (rows_of demo_get (country_filter demo_countries) (indicators_default ! 1))
     = [''2015'', ''2014'', ''1990'']"
    by code_simp+
  moreover have "map x_val (fig_data (demo_figures ! 0)) = [[''1990'', ''2014''], [''1990'', ''2014'']]"
    "map x_val (fig_data (demo_figures ! 1)) = [[], [''1990'', ''2015'']]"
    by (simp_all add: demo_figures_def)
  ultimately show ?thesis using demo_run sorts_by_date_sort_key by simp
qed

text \<open>
  C5. In a call that returns, each chart has one series per country of the canonical
  order, and a country of that order without a row in the chart's frame still has its
  series, at its position, with empty x and y lists.
\<close>

theorem absent_country_gives_empty_series:
  assumes "fst (return_figures sort_values requests_get cs inds) = Inr figs"
  shows
    "let canonical = countrylist sort_values requests_get cs inds;
         df_three = df_two sort_values requests_get cs inds
     in (\<forall>f\<in>set figs. length (fig_data f) = length canonical) \<and>
        (\<forall>i<length canonical.
           (canonical ! i \<notin> country ` set (df_one sort_values requests_get cs inds) \<longrightarrow>
              fig_data (figs ! 0) ! i = Scatter [] [] ''lines+markers'' (canonical ! i)) \<and>
           (canonical ! i \<notin> country ` set (df_two sort_values requests_get cs inds) \<longrightarrow>
              fig_data (figs ! 1) ! i = Bar [] [] (canonical ! i)) \<and>
           (canonical ! i \<notin> country ` set df_three \<longrightarrow>
              fig_data (figs ! 2) ! i = Scatter [] [] ''lines+markers'' (canonical ! i)) \<and>
           (canonical ! i \<notin> country ` set (df_four sort_values requests_get cs inds) \<longrightarrow>
              fig_data (figs ! 3) ! i = Bar [] [] (canonical ! i)))"
proof -
  from assms have figs: "figs = four_figures sort_values requests_get cs inds"
    by (rule return_figures_Inr)
  have "\<forall>f\<in>set figs. length (fig_data f) = length (countrylist sort_values requests_get cs inds)"
    unfolding figs by (auto simp: four_figures_def traces_length)
  then show ?thesis
    unfolding figs four_figures_nth Let_def
    by (simp add: scatter_traces_absent bar_traces_absent)
qed

theorem absent_country_gives_empty_series_witness:
  "fst (return_figures (sort_key date) demo_get demo_countries indicators_default) = Inr demo_figures \<and>
   countrylist (sort_key date) demo_get demo_countries indicators_default
     = [Str ''Brazil'', Str ''Canada''] \<and>
   map country (df_two (sort_key date) demo_get demo_countries indicators_default)
     = [Str ''Canada'', Str ''Canada''] \<and>
   fig_data (demo_figures ! 1) ! 0 = Bar [] [] (Str ''Brazil'') \<and>
   fig_data (demo_figures ! 2) ! 0 = Scatter [] [] ''lines+markers'' (Str ''Brazil'') \<and>
   map (\<lambda>f. length (fig_data f)) demo_figures = [2, 2, 2, 2]"
proof -
  have cl: "countrylist (sort_key date) demo_get demo_countries indicators_default
     = [Str ''Brazil'', Str ''Canada'']"
    by code_simp
  have two: "map country (df_two (sort_key date) demo_get demo_countries indicators_default)
     = [Str ''Canada'', Str ''Canada'']"
    by code_simp
  then have absent: "Str ''Brazil'' \<notin> country ` set (df_two (sort_key date) demo_get demo_countries indicators_default)"
    by (simp flip: set_map)
  from absent_country_gives_empty_series [OF demo_run] cl absent
  have "fig_data (demo_figures ! 1) ! 0 = Bar [] [] (Str ''Brazil'') \<and>
        fig_data (demo_figures ! 2) ! 0 = Scatter [] [] ''lines+markers'' (Str ''Brazil'')"
    by (simp add: Let_def)
  moreover from absent_country_gives_empty_series [OF demo_run] cl
  have "\<forall>f\<in>set demo_figures. length (fig_data f) = 2"
    by (simp add: Let_def)
  then have "map (\<lambda>f. length (fig_data f)) demo_figures = [2, 2, 2, 2]"
    by (simp add: demo_figures_def)
  ultimately show ?thesis using demo_run cl two by simp
qed

text \<open>
  C6 does not hold for the code. The \<^verbatim>\<open>try\<close> block catches the failure and prints the
  indicator, but the next statement works on whatever \<open>data\<close> holds: nothing in the first
  round, the records of the last successful round later, and those are flat already.
  Whenever one of the first five requests fails, the call raises; with the four default
  indicators every request failure surfaces. In the concrete run the first request succeeds,
  the second fails, and the call ends in \<^verbatim>\<open>TypeError\<close>.
\<close>

theorem request_failure_raises:
  assumes "k < length inds" and "k \<le> 4"
    and "requests_get (make_url (country_filter cs) (inds ! k)) = Inl f"
  shows "\<exists>e. fst (return_figures sort_values requests_get cs inds) = Inl e"
proof (cases "fst (return_figures sort_values requests_get cs inds)")
  case (Inl e)
  then show ?thesis by blast
next
  case (Inr figs)
  let ?rows = "\<lambda>i. rows_of requests_get (country_filter cs) (inds ! i)"
  note ne = return_figures_Inr(3-5) [OF Inr]
  from assms(3) have here: "?rows k = []" by (simp add: rows_of_def)
  have before: "0 < k \<and> ?rows (k - 1) = []"
  proof (cases rule: return_figures_cases [of requests_get cs inds sort_values])
    case (loop e st)
    with Inr show ?thesis by simp
  next
    case (charts st)
    from pull_failed [OF charts(1) _ assms(1,3)] show ?thesis
      by (cases k) (simp_all add: stale_ok_def)
  qed
  from assms(2) consider "k = 0" | "k = 1" | "k = 2" | "k = 3" | "k = 4" by linarith
  then have False
  proof cases
    case 1 with before show ?thesis by simp
  next
    case 2 with here ne(2) show ?thesis by simp
  next
    case 3 with before ne(2) show ?thesis by simp
  next
    case 4 with here ne(3) show ?thesis by simp
  next
    case 5 with before ne(3) show ?thesis by simp
  qed
  then show ?thesis ..
qed

theorem request_failure_raises_witness:
  "1 < length indicators_default \<and>
   map (\<lambda>code. case flaky_get (make_url (country_filter demo_countries) code) of
                   Inr records \<Rightarrow> Inr (length records)
                 | Inl f \<Rightarrow> Inl f) indicators_default
     = [Inr 5, Inl RequestFailure, Inr 1, Inr 3] \<and>
   fst (return_figures (sort_key date) flaky_get demo_countries indicators_default)
     = Inl TypeError \<and>
   stdout (snd (return_figures (sort_key date) flaky_get demo_countries indicators_default))
     = [''could not load data for EG.FEC.RNEW.ZS'']"
proof -
  have h1: "1 < length indicators_default"
    by (simp add: indicators_default_def)
  have h2: "flaky_get (make_url (country_filter demo_countries) (indicators_default ! 1)) =
      Inl RequestFailure"
    by code_simp
  have h3: "(1::nat) \<le> 4" by simp
  from request_failure_raises
    [of 1 indicators_default flaky_get demo_countries RequestFailure "sort_key date", OF h1 h3 h2]
  obtain e where e: "fst (return_figures (sort_key date) flaky_get demo_countries
      indicators_default) = Inl e"
    by auto
  have run: "fst (return_figures (sort_key date) flaky_get demo_countries indicators_default)
      = Inl TypeError"
    by code_simp
  have out: "stdout (snd (return_figures (sort_key date) flaky_get demo_countries
      indicators_default)) = [''could not load data for EG.FEC.RNEW.ZS'']"
    by code_simp
  have resp: "map (\<lambda>code. case flaky_get (make_url (country_filter demo_countries) code) of
                   Inr records \<Rightarrow> Inr (length records)
                 | Inl f \<Rightarrow> Inl f) indicators_default
     = [Inr 5, Inl RequestFailure, Inr 1, Inr 3]"
    by code_simp
  from e run have "e = TypeError" by simp
  with e h1 out resp show ?thesis by simp
qed

text \<open>
  C7 fails as stated: the URLs are built with the scheme \<^verbatim>\<open>http\<close>, not
  \<^verbatim>\<open>https\<close>.
\<close>

theorem query_urls_counterexample:
  "urls (snd (return_figures (sort_key date) demo_get demo_countries indicators_default)) =
     [''http://api.worldbank.org/v2/country/can;bra/indicator/EG.USE.ELEC.KH.PC?date=1990:2015&per_page=1000&format=json'',
      ''http://api.worldbank.org/v2/country/can;bra/indicator/EG.FEC.RNEW.ZS?date=1990:2015&per_page=1000&format=json'',
      ''http://api.worldbank.org/v2/country/can;bra/indicator/EG.USE.PCAP.KG.OE?date=1990:2015&per_page=1000&format=json'',
      ''http://api.worldbank.org/v2/country/can;bra/indicator/EN.ATM.GHGT.KT.CE?date=1990:2015&per_page=1000&format=json''] \<and>
   ''https://'' \<notin> set (map (take 8)
      (urls (snd (return_figures (sort_key date) demo_get demo_countries indicators_default))))"
  by code_simp

text \<open>
  C7, amended. The country filter is the ISO-3 codes of the mapping, lower-cased and joined
  with a semicolon, and the URL for an indicator code is
  \<^verbatim>\<open>http://api.worldbank.org/v2/country/{filter}/indicator/{code}?date=1990:2015&per_page=1000&format=json\<close>.
  The list of URLs a call has built when it ends is an initial segment of the URLs of the
  indicators, in list order; unless the retrieval loop raised (\<^verbatim>\<open>UnboundLocalError\<close> or
  \<^verbatim>\<open>TypeError\<close>) it is the whole list, one URL per indicator, and each record set is
  what the collaborator answered for the URL at its position.
\<close>

theorem query_urls:
  "let r = return_figures sort_values requests_get cs inds;
       filter_codes = join '';'' (map lower (map snd cs));
       queries = map (\<lambda>code. ''http://api.worldbank.org/v2/country/'' @ filter_codes
                        @ ''/indicator/'' @ code
                        @ ''?date=1990:2015&per_page=1000&format=json'') inds
   in (\<exists>n\<le>length inds. urls (snd r) = take n queries) \<and>
      (fst r \<noteq> Inl UnboundLocalError \<and> fst r \<noteq> Inl TypeError \<longrightarrow>
         urls (snd r) = queries \<and>
         data_frames (snd r) =
           map (\<lambda>url. case requests_get url of
                         Inr records \<Rightarrow> map flat_record records
                       | Inl _ \<Rightarrow> []) queries)"
proof -
  let ?st0 = "\<lparr>countries = cs, indicators = inds, data = None, data_frames = [], urls = [],
                stdout = []\<rparr> :: 'a frame"
  let ?r = "return_figures sort_values requests_get cs inds"
  let ?U = "map (make_url (country_filter cs)) inds"
  have rows: "map (rows_of requests_get (country_filter cs)) inds =
      map (\<lambda>url. case requests_get url of
                    Inr records \<Rightarrow> map flat_record records
                  | Inl _ \<Rightarrow> []) ?U"
    by (simp add: rows_of_def comp_def)
  have mk: "make_url (country_filter cs) =
      (\<lambda>code. ''http://api.worldbank.org/v2/country/'' @ join '';'' (map lower (map snd cs))
                @ ''/indicator/'' @ code @ ''?date=1990:2015&per_page=1000&format=json'')"
    by (rule ext) (simp only: make_url_def country_filter_def)
  have main: "(\<exists>n\<le>length inds. urls (snd ?r) = take n ?U) \<and>
      (fst ?r \<noteq> Inl UnboundLocalError \<and> fst ?r \<noteq> Inl TypeError \<longrightarrow>
         urls (snd ?r) = ?U \<and>
         data_frames (snd ?r) = map (rows_of requests_get (country_filter cs)) inds)"
  proof (cases rule: return_figures_cases [of requests_get cs inds sort_values])
    case (loop e st)
    from pull_urls_prefix [of inds requests_get "country_filter cs" ?st0] loop(1)
    have "\<exists>n\<le>length inds. urls st = take n ?U"
      by (simp add: take_map)
    moreover from loop(1) have "e = UnboundLocalError \<or> e = TypeError"
      by (rule pull_exn)
    ultimately show ?thesis using loop(2) by auto
  next
    case (charts st)
    from pull_urls_done [OF charts(1)] have u: "urls st = ?U" by simp
    then have "urls st = take (length inds) ?U" by simp
    then have "\<exists>n\<le>length inds. urls st = take n ?U" by blast
    with u charts(2,3) show ?thesis by simp
  qed
  from main [unfolded rows mk] show ?thesis
    unfolding Let_def .
qed

theorem query_urls_witness:
  "fst (return_figures (sort_key date) demo_get demo_countries indicators_default) = Inr demo_figures \<and>
   join '';'' (map lower (map snd demo_countries)) = ''can;bra'' \<and>
   urls (snd (return_figures (sort_key date) demo_get demo_countries indicators_default)) =
     map (\<lambda>code. ''http://api.worldbank.org/v2/country/'' @ ''can;bra'' @ ''/indicator/'' @ code
                    @ ''?date=1990:2015&per_page=1000&format=json'') indicators_default"
proof -
  have f: "join '';'' (map lower (map snd demo_countries)) = ''can;bra''"
    by code_simp
  from query_urls [of "sort_key date" demo_get demo_countries indicators_default] demo_run
  have "urls (snd (return_figures (sort_key date) demo_get demo_countries indicators_default)) =
     map (\<lambda>code. ''http://api.worldbank.org/v2/country/'' @
                    join '';'' (map lower (map snd demo_countries)) @ ''/indicator/'' @ code
                    @ ''?date=1990:2015&per_page=1000&format=json'') indicators_default"
    by (simp add: Let_def)
  with demo_run f show ?thesis by simp
qed

text \<open>
  C8 fails as stated: the function flattens the response dicts it is handed in place, and
  that is state carried from one call to the next. With a collaborator that hands out the
  same twelve fixture objects at every request, the first call returns the four figures
  and the second call, with the same arguments and the same answers, raises
  \<^verbatim>\<open>TypeError\<close>.
\<close>

theorem reused_fixtures_counterexample:
  "map (\<lambda>code. fst (fixtures demo_refs (make_url (country_filter demo_countries) code) demo_heap))
     indicators_default = [Inr [0, 1, 2, 3, 4], Inr [5, 6, 7], Inr [8], Inr [9, 10, 11]] \<and>
   map (\<lambda>code. fst (fixtures demo_refs (make_url (country_filter demo_countries) code)
      (snd (return_figures_store (sort_key date) (fixtures demo_refs) demo_countries
              indicators_default demo_heap))))
     indicators_default = [Inr [0, 1, 2, 3, 4], Inr [5, 6, 7], Inr [8], Inr [9, 10, 11]] \<and>
   fst (return_figures_store (sort_key date) (fixtures demo_refs) demo_countries
          indicators_default demo_heap) = Inr demo_figures \<and>
   fst (return_figures_store (sort_key date) (fixtures demo_refs) demo_countries
          indicators_default
          (snd (return_figures_store (sort_key date) (fixtures demo_refs) demo_countries
                  indicators_default demo_heap))) = Inl TypeError"
  by code_simp

text \<open>
  C8, amended. Calling the function twice with the same arguments against a collaborator
  that parses every response afresh from the same bodies, as \<^verbatim>\<open>resp.json()\<close> does, gives
  the same result both times, the same figures or the same exception, whatever objects
  the heap held before the first call and whatever the first call left in it; the result
  is that of the one call on values.
\<close>

theorem fresh_responses_repeatable:
  "let first = return_figures_store sort_values (parsing body) cs inds h;
       second = return_figures_store sort_values (parsing body) cs inds (snd first)
   in fst second = fst first \<and> fst first = fst (return_figures sort_values body cs inds)"
  by (simp add: Let_def return_figures_store_parsing)

theorem fresh_responses_repeatable_witness:
  "fst (return_figures_store (sort_key date) (parsing demo_get) demo_countries indicators_default [])
     = Inr demo_figures \<and>
   length (snd (return_figures_store (sort_key date) (parsing demo_get) demo_countries
                  indicators_default [])) = 12 \<and>
   fst (return_figures_store (sort_key date) (parsing demo_get) demo_countries indicators_default
          (snd (return_figures_store (sort_key date) (parsing demo_get) demo_countries
                  indicators_default []))) = Inr demo_figures"
proof -
  have len: "length (snd (return_figures_store (sort_key date) (parsing demo_get) demo_countries
                  indicators_default [])) = 12"
    by code_simp
  from fresh_responses_repeatable [of "sort_key date" demo_get demo_countries indicators_default "[]"]
    demo_run
  have "fst (return_figures_store (sort_key date) (parsing demo_get) demo_countries
          indicators_default []) = Inr demo_figures"
    "fst (return_figures_store (sort_key date) (parsing demo_get) demo_countries indicators_default
          (snd (return_figures_store (sort_key date) (parsing demo_get) demo_countries
                  indicators_default []))) = Inr demo_figures"
    by (simp_all add: Let_def)
  with len show ?thesis by simp
qed

text \<open>
  C9 fails as stated: the mode of the line series is \<^verbatim>\<open>lines+markers\<close>, not
  \<^verbatim>\<open>line+markers\<close>.
\<close>

theorem series_kind_counterexample:
  "fst (return_figures (sort_key date) demo_get demo_countries indicators_default) = Inr demo_figures \<and>
   map mode (fig_data (demo_figures ! 0)) = [''lines+markers'', ''lines+markers''] \<and>
   ''line+markers'' \<notin> set (map mode (fig_data (demo_figures ! 0)))"
  using demo_run by (simp add: demo_figures_def)

text \<open>
  C9, amended. In a call that returns, every series of charts 1 and 3 is a scatter trace
  with its x, y and name and the mode \<^verbatim>\<open>lines+markers\<close>, every series of charts 2 and
  4 is a bar trace with its x, y and name, and the layouts of charts 2 and 4, and only
  those, have \<^verbatim>\<open>barmode = "stack"\<close>.
\<close>

theorem series_kinds:
  assumes "fst (return_figures sort_values requests_get cs inds) = Inr figs"
  shows
    "(\<forall>s\<in>set (fig_data (figs ! 0)) \<union> set (fig_data (figs ! 2)).
        s = Scatter (x_val s) (y_val s) ''lines+markers'' (name s) \<and> trace_type s = ''scatter'') \<and>
     (\<forall>s\<in>set (fig_data (figs ! 1)) \<union> set (fig_data (figs ! 3)).
        s = Bar (x_val s) (y_val s) (name s) \<and> trace_type s = ''bar'') \<and>
     map (\<lambda>f. barmode (fig_layout f)) figs = [None, Some ''stack'', None, Some ''stack'']"
proof -
  from assms have figs: "figs = four_figures sort_values requests_get cs inds"
    by (rule return_figures_Inr)
  have "map (\<lambda>f. barmode (fig_layout f)) figs = [None, Some ''stack'', None, Some ''stack'']"
    unfolding figs
    by (simp add: four_figures_def layout_one_def layout_two_def layout_three_def layout_four_def)
  then show ?thesis
    unfolding figs four_figures_nth
    by (auto dest: scatter_traces_kind bar_traces_kind)
qed

theorem series_kinds_witness:
  "fst (return_figures (sort_key date) demo_get demo_countries indicators_default) = Inr demo_figures \<and>
   map mode (fig_data (demo_figures ! 0)) = [''lines+markers'', ''lines+markers''] \<and>
   map trace_type (fig_data (demo_figures ! 0)) = [''scatter'', ''scatter''] \<and>
   map trace_type (fig_data (demo_figures ! 1)) = [''bar'', ''bar''] \<and>
   map (\<lambda>f. barmode (fig_layout f)) demo_figures = [None, Some ''stack'', None, Some ''stack'']"
proof -
  from series_kinds [OF demo_run]
  have "map (\<lambda>f. barmode (fig_layout f)) demo_figures = [None, Some ''stack'', None, Some ''stack'']"
    by blast
  moreover have "map mode (fig_data (demo_figures ! 0)) = [''lines+markers'', ''lines+markers'']"
    "map trace_type (fig_data (demo_figures ! 0)) = [''scatter'', ''scatter'']"
    "map trace_type (fig_data (demo_figures ! 1)) = [''bar'', ''bar'']"
    by (simp_all add: demo_figures_def)
  ultimately show ?thesis using demo_run by simp
qed

text \<open>
  C10. Every call leaves both arguments as they were: in the frame the call ends with,
  whether it returns or raises, the countries mapping and the indicators list are the
  ones it was given.
\<close>

theorem return_figures_leaves_arguments:
  "countries (snd (return_figures sort_values requests_get cs inds)) = cs \<and>
   indicators (snd (return_figures sort_values requests_get cs inds)) = inds"
  by (simp add: return_figures_args)

theorem return_figures_leaves_arguments_witness:
  "countries (snd (return_figures (sort_key date) demo_get demo_countries indicators_default))
     = [(''Canada'', ''CAN''), (''Brazil'', ''BRA'')] \<and>
   indicators (snd (return_figures (sort_key date) demo_get demo_countries indicators_default))
     = [''EG.USE.ELEC.KH.PC'', ''EG.FEC.RNEW.ZS'', ''EG.USE.PCAP.KG.OE'', ''EN.ATM.GHGT.KT.CE'']"
  using return_figures_leaves_arguments
    [of "sort_key date" demo_get demo_countries indicators_default]
  by (simp add: demo_countries_def indicators_default_def)

end
